theory Spec2Isabelle
  imports Main "HOL-Library.AList"
begin

section \<open>Column codec\<close>

text \<open>
  Python strings are sequences of code points; the model uses \<open>string\<close>, so a
  character is a code point below 256. \<open>chr\<close> is \<open>char_of\<close> and \<open>ord\<close> is
  \<open>of_char\<close>, both at type \<open>int\<close>, Python's unbounded integer. Python's \<open>//\<close> and
  \<open>%\<close> round towards minus infinity, as \<open>div\<close> and \<open>mod\<close> on \<open>int\<close> do.

  \<^verbatim>\<open>ExcelGeneratorService._get_column_letter\<close> (generator_service.py):
  \<^verbatim>\<open>
    result = ""
    col_idx += 1  # Excel columns are 1-based
    while col_idx > 0:
        col_idx -= 1
        result = chr(col_idx % 26 + ord('A')) + result
        col_idx //= 26
    return result
  \<close>
\<close>

function generator_column_letter_loop :: "int \<Rightarrow> string \<Rightarrow> string" where
  "generator_column_letter_loop col_idx result =
     (if col_idx > 0
      then generator_column_letter_loop ((col_idx - 1) div 26)
             (char_of ((col_idx - 1) mod 26 + of_char (CHR ''A'')) # result)
      else result)"
  by pat_completeness auto
termination
  by (relation "measure (\<lambda>(col_idx, result). nat col_idx)") auto

definition generator_get_column_letter :: "int \<Rightarrow> string" where
  "generator_get_column_letter col_idx = generator_column_letter_loop (col_idx + 1) []"

text \<open>\<^verbatim>\<open>ExcelUploadService._get_column_letter\<close> (upload_service.py), a second copy of the loop.\<close>

function upload_column_letter_loop :: "int \<Rightarrow> string \<Rightarrow> string" where
  "upload_column_letter_loop col_idx result =
     (if col_idx > 0
      then upload_column_letter_loop ((col_idx - 1) div 26)
             (char_of ((col_idx - 1) mod 26 + of_char (CHR ''A'')) # result)
      else result)"
  by pat_completeness auto
termination
  by (relation "measure (\<lambda>(col_idx, result). nat col_idx)") auto

definition upload_get_column_letter :: "int \<Rightarrow> string" where
  "upload_get_column_letter col_idx = upload_column_letter_loop (col_idx + 1) []"

text \<open>
  Modelled from the spec: the letters-to-index function, which the repository does not
  contain. The spec names it as the inverse used by the round-trip property; it reads a
  label as a bijective base-26 numeral whose digits \<open>A\<close>, ..., \<open>Z\<close> stand for 1, ..., 26,
  and returns the zero-based index.
\<close>

definition letter_value :: "char \<Rightarrow> int" where
  "letter_value c = of_char c - of_char (CHR ''A'') + 1"

definition letters_value :: "string \<Rightarrow> int" where
  "letters_value s = foldl (\<lambda>acc c. acc * 26 + letter_value c) 0 s"

definition letters_to_index :: "string \<Rightarrow> int" where
  "letters_to_index s = letters_value s - 1"

definition is_upper_letter :: "char \<Rightarrow> bool" where
  "is_upper_letter c = (of_char (CHR ''A'') \<le> (of_char c :: int) \<and> (of_char c :: int) \<le> of_char (CHR ''Z''))"

declare generator_column_letter_loop.simps [simp del]
declare upload_column_letter_loop.simps [simp del]


section \<open>Python values, strings and exceptions\<close>

text \<open>
  The scalar values the services handle. A \<open>float\<close> and any other object are carried
  by the text \<open>str()\<close> gives for them, which is all the services ever ask of them.
  In Python \<open>bool\<close> is a subclass of \<open>int\<close>, so \<open>isinstance(v, (int, float))\<close> holds
  for \<open>True\<close> and \<open>False\<close> as well.
\<close>

datatype pyval = PyNone | PyBool bool | PyInt int | PyFloat string | PyStr string | PyObj string

fun digits_of :: "nat \<Rightarrow> string" where
  "digits_of n =
     (if n < 10 then [char_of (n + 48)]
      else digits_of (n div 10) @ [char_of (n mod 10 + 48)])"

declare digits_of.simps [simp del]

definition str_int :: "int \<Rightarrow> string" where
  "str_int i = (if i < 0 then CHR ''-'' # digits_of (nat (- i)) else digits_of (nat i))"

fun py_str :: "pyval \<Rightarrow> string" where
  "py_str PyNone = ''None''"
| "py_str (PyBool b) = (if b then ''True'' else ''False'')"
| "py_str (PyInt i) = str_int i"
| "py_str (PyFloat s) = s"
| "py_str (PyStr s) = s"
| "py_str (PyObj s) = s"

fun isinstance_int_float :: "pyval \<Rightarrow> bool" where
  "isinstance_int_float (PyBool b) = True"
| "isinstance_int_float (PyInt i) = True"
| "isinstance_int_float (PyFloat s) = True"
| "isinstance_int_float v = False"

fun isinstance_bool :: "pyval \<Rightarrow> bool" where
  "isinstance_bool (PyBool b) = True"
| "isinstance_bool v = False"

text \<open>\<open>str.strip()\<close>: the characters below 256 for which \<open>str.isspace\<close> holds.\<close>

definition py_isspace :: "char \<Rightarrow> bool" where
  "py_isspace c =
     (let n = (of_char c :: nat)
      in (9 \<le> n \<and> n \<le> 13) \<or> (28 \<le> n \<and> n \<le> 32) \<or> n = 133 \<or> n = 160)"

definition py_strip :: "string \<Rightarrow> string" where
  "py_strip s = rev (dropWhile py_isspace (rev (dropWhile py_isspace s)))"

fun py_join :: "string \<Rightarrow> string list \<Rightarrow> string" where
  "py_join sep [] = []"
| "py_join sep [x] = x"
| "py_join sep (x # y # ys) = x @ sep @ py_join sep (y # ys)"

definition dq :: string where
  "dq = [CHR 0x22]"

definition sq :: string where
  "sq = [CHR 0x27]"

definition newline :: string where
  "newline = [CHR 0x0A]"

text \<open>The accented letters of the messages, as code points.\<close>

definition a_acute :: string where
  "a_acute = [CHR 0xE1]"

definition i_acute :: string where
  "i_acute = [CHR 0xED]"

text \<open>\<open>repr\<close> of a string and of a list of strings, as an f-string prints a list.\<close>

definition hex_digit :: "nat \<Rightarrow> char" where
  "hex_digit n = (if n < 10 then char_of (n + 48) else char_of (n + 87))"

definition py_repr_char :: "char \<Rightarrow> char \<Rightarrow> string" where
  "py_repr_char q c =
     (let n = (of_char c :: nat)
      in if c = q \<or> n = 92 then [CHR 0x5C, c]
         else if n = 9 then [CHR 0x5C, CHR ''t'']
         else if n = 10 then [CHR 0x5C, CHR ''n'']
         else if n = 13 then [CHR 0x5C, CHR ''r'']
         else if n < 32 \<or> n = 127 \<or> (128 \<le> n \<and> n \<le> 160) \<or> n = 173
           then [CHR 0x5C, CHR ''x'', hex_digit (n div 16), hex_digit (n mod 16)]
         else [c])"

definition py_repr_str :: "string \<Rightarrow> string" where
  "py_repr_str s =
     (let q = (if CHR 0x27 \<in> set s \<and> CHR 0x22 \<notin> set s then CHR 0x22 else CHR 0x27)
      in q # concat (map (py_repr_char q) s) @ [q])"

definition py_repr_list :: "string list \<Rightarrow> string" where
  "py_repr_list xs = ''['' @ py_join '', '' (map py_repr_str xs) @ '']''"

text \<open>
  Exceptions, each with the text \<open>str(e)\<close> gives. \<open>error_handling.py\<close> declares
  \<open>ExcelGenerationError\<close> with the subclasses \<open>DatabaseError\<close>, \<open>TemplateError\<close> and
  \<open>ValidationError\<close>; \<open>OtherException\<close> stands for every other subclass of
  \<open>Exception\<close> that a library can raise. An \<open>except DatabaseError\<close> clause catches
  \<open>DatabaseError\<close> only, \<open>except AttributeError\<close> catches \<open>AttributeError\<close> only, and
  \<open>except Exception\<close> catches all of them.
\<close>

datatype exn =
    AttributeError string
  | ValueError string
  | ExcelGenerationError string
  | DatabaseError string
  | TemplateError string
  | ValidationError string
  | OtherException string

fun str_exn :: "exn \<Rightarrow> string" where
  "str_exn (AttributeError m) = m"
| "str_exn (ValueError m) = m"
| "str_exn (ExcelGenerationError m) = m"
| "str_exn (DatabaseError m) = m"
| "str_exn (TemplateError m) = m"
| "str_exn (ValidationError m) = m"
| "str_exn (OtherException m) = m"

fun is_AttributeError :: "exn \<Rightarrow> bool" where
  "is_AttributeError (AttributeError m) = True"
| "is_AttributeError e = False"

fun is_DatabaseError :: "exn \<Rightarrow> bool" where
  "is_DatabaseError (DatabaseError m) = True"
| "is_DatabaseError e = False"

text \<open>
  A \<open>dict\<close> keeps its keys in insertion order and a repeated key keeps its place:
  an association list with \<open>AList.update\<close> as item assignment.
\<close>

type_synonym ('k, 'v) pydict = "('k \<times> 'v) list"

definition dict_get :: "('k, 'v) pydict \<Rightarrow> 'k \<Rightarrow> 'v \<Rightarrow> 'v" where
  "dict_get d k dflt = (case map_of d k of None \<Rightarrow> dflt | Some v \<Rightarrow> v)"

definition dict_keys :: "('k, 'v) pydict \<Rightarrow> 'k list" where
  "dict_keys d = map fst d"

definition dict_of_pairs :: "('k \<times> 'v) list \<Rightarrow> ('k, 'v) pydict" where
  "dict_of_pairs kvs = foldl (\<lambda>d (k, v). AList.update k v d) [] kvs"

text \<open>
  A \<open>for\<close> loop whose body may raise: the state reached so far is kept, since the
  objects are mutated in place, and the first exception ends the loop.
\<close>

fun for_each :: "('a \<Rightarrow> 's \<Rightarrow> exn option \<times> 's) \<Rightarrow> 'a list \<Rightarrow> 's \<Rightarrow> exn option \<times> 's" where
  "for_each body [] s = (None, s)"
| "for_each body (x # xs) s =
     (case body x s of
        (None, s') \<Rightarrow> for_each body xs s'
      | (Some e, s') \<Rightarrow> (Some e, s'))"

definition enumerate_list :: "'a list \<Rightarrow> (nat \<times> 'a) list" where
  "enumerate_list xs = zip [0..<length xs] xs"

text \<open>\<open>range(0, n, step)\<close> for a positive step.\<close>

definition range_step :: "nat \<Rightarrow> nat \<Rightarrow> nat list" where
  "range_step n step = map (\<lambda>j. j * step) [0..<(n + step - 1) div step]"

section \<open>Relational gateway (utils/db.py)\<close>

text \<open>
  The store as the gateway sees it: what the introspection query returns for a table
  (its column names in ordinal order, or the exception the session raises), and what
  executing a SELECT text with its parameters returns (the result's column keys and its
  rows, or an exception). Every call also yields the list of queries it issued. The
  parameter \<open>flds\<close> is the source's \<open>fields\<close>.
\<close>

type_synonym row = "(string, pyval) pydict"

datatype query = SchemaQuery string | SelectQuery string "(string, pyval) pydict"

record store =
  schema_columns :: "string \<Rightarrow> exn + string list"
  run_select :: "string \<Rightarrow> (string, pyval) pydict \<Rightarrow> exn + (string list \<times> pyval list list)"

definition get_table_columns_try :: "store \<Rightarrow> string \<Rightarrow> exn + string list" where
  "get_table_columns_try st table_name =
     (case schema_columns st table_name of
        Inl e \<Rightarrow> Inl e
      | Inr columns \<Rightarrow>
          if columns = []
          then Inl (DatabaseError (''Tabla '' @ sq @ table_name @ sq @ '' no encontrada''))
          else Inr columns)"

definition get_table_columns :: "store \<Rightarrow> string \<Rightarrow> (exn + string list) \<times> query list" where
  "get_table_columns st table_name =
     (case get_table_columns_try st table_name of
        Inl e \<Rightarrow> (Inl (DatabaseError (''Error accediendo a tabla: '' @ str_exn e)),
                  [SchemaQuery table_name])
      | Inr columns \<Rightarrow> (Inr columns, [SchemaQuery table_name]))"

text \<open>
  \<open>fetch_data\<close>: the loop over \<open>filters.items()\<close> appends one condition and one
  parameter for every entry whose value is not \<open>None\<close>.
\<close>

definition where_step ::
  "string list \<times> (string, pyval) pydict \<Rightarrow> string \<times> pyval \<Rightarrow> string list \<times> (string, pyval) pydict" where
  "where_step acc kv =
     (case acc of (where_conditions, params) \<Rightarrow>
      case kv of (key, v) \<Rightarrow>
        if v \<noteq> PyNone
        then (where_conditions @ [dq @ key @ dq @ '' = :'' @ key], AList.update key v params)
        else (where_conditions, params))"

definition fetch_data_query ::
  "string \<Rightarrow> string list \<Rightarrow> (string, pyval) pydict \<Rightarrow> string \<times> (string, pyval) pydict" where
  "fetch_data_query table_name flds filters =
     (let fields_str = py_join '', '' (map (\<lambda>field. dq @ field @ dq) flds);
          query_str = ''SELECT '' @ fields_str @ '' FROM '' @ dq @ table_name @ dq;
          (where_conditions, params) = foldl where_step ([], []) filters;
          query_str = (if where_conditions \<noteq> []
                       then query_str @ '' WHERE '' @ py_join '' AND '' where_conditions
                       else query_str);
          query_str = query_str @ '' LIMIT 200000''
      in (query_str, params))"

definition fetch_data ::
  "store \<Rightarrow> string \<Rightarrow> string list \<Rightarrow> (string, pyval) pydict \<Rightarrow> (exn + row list) \<times> query list" where
  "fetch_data st table_name flds filters =
     (case fetch_data_query table_name flds filters of (query_str, params) \<Rightarrow>
        (case run_select st query_str params of
           Inl e \<Rightarrow> Inl (DatabaseError (''Error en consulta: '' @ str_exn e))
         | Inr (columns, rows) \<Rightarrow> Inr (map (\<lambda>r. dict_of_pairs (zip columns r)) rows),
         [SelectQuery query_str params]))"

text \<open>
  The query of \<open>fetch_rows\<close> in the spec's words: a SELECT over the requested fields
  from the table, the equality predicates of the filter entries that are not \<open>None\<close>
  combined with AND, and the row cap.
\<close>

definition spec_select_query :: "string \<Rightarrow> string list \<Rightarrow> (string, pyval) pydict \<Rightarrow> string" where
  "spec_select_query table_name flds filters =
     ''SELECT '' @ py_join '', '' (map (\<lambda>f. dq @ f @ dq) flds)
       @ '' FROM '' @ dq @ table_name @ dq
       @ (case filter (\<lambda>kv. snd kv \<noteq> PyNone) filters of
            [] \<Rightarrow> []
          | kvs \<Rightarrow> '' WHERE '' @ py_join '' AND '' (map (\<lambda>kv. dq @ fst kv @ dq @ '' = :'' @ fst kv) kvs))
       @ '' LIMIT 200000''"

section \<open>Export pipeline (services/generator_service.py)\<close>

definition format_cell_value :: "pyval \<Rightarrow> string" where
  "format_cell_value v =
     (if v = PyNone then ''''
      else if isinstance_int_float v then py_str v
      else if isinstance_bool v then (if v = PyBool True then ''S'' @ i_acute else ''No'')
      else py_str v)"

text \<open>
  A worksheet of the Workbook Engine: the value of every cell that has one, by address,
  the header cells whose styling was applied, and the column widths set. The engine's
  failures are parameters: the exception, if any, that touching a cell raises, that
  styling a cell raises, and that the two width calls raise for a column.
\<close>

datatype width = AutoSized | FixedWidth nat

record sheet =
  sheet_name :: string
  cells :: "string \<rightharpoonup> string"
  styled :: "string list"
  widths :: "(nat \<times> width) list"

record engine =
  cell_fault :: "string \<Rightarrow> exn option"
  style_fault :: "string \<Rightarrow> exn option"
  autosize_fault :: "nat \<Rightarrow> exn option"
  set_width_fault :: "nat \<Rightarrow> exn option"
  template_sheet :: "string \<Rightarrow> (exn + sheet) option"
  save_fault :: "exn option"
  serialize :: "sheet \<Rightarrow> nat list"

definition write_header_cell :: "engine \<Rightarrow> nat \<times> string \<Rightarrow> sheet \<Rightarrow> exn option \<times> sheet" where
  "write_header_cell eng cf sh =
     (case cf of (col_idx, field) \<Rightarrow>
        let cell_address = generator_get_column_letter (int col_idx) @ ''1''
        in case cell_fault eng cell_address of
             Some e \<Rightarrow> (Some e, sh)
           | None \<Rightarrow>
               let sh1 = sh\<lparr>cells := (cells sh)(cell_address \<mapsto> field)\<rparr>
               in (case style_fault eng cell_address of
                     None \<Rightarrow> (None, sh1\<lparr>styled := styled sh1 @ [cell_address]\<rparr>)
                   | Some e \<Rightarrow> if is_AttributeError e then (None, sh1) else (Some e, sh1)))"

definition write_data_cell ::
  "engine \<Rightarrow> row \<Rightarrow> nat \<Rightarrow> nat \<times> string \<Rightarrow> sheet \<Rightarrow> exn option \<times> sheet" where
  "write_data_cell eng row_data row_idx cf sh =
     (case cf of (col_idx, field) \<Rightarrow>
        let cell_address = generator_get_column_letter (int col_idx) @ str_int (int row_idx)
        in case cell_fault eng cell_address of
             Some e \<Rightarrow> (Some e, sh)
           | None \<Rightarrow>
               let v = dict_get row_data field (PyStr '''');
                   formatted_value = format_cell_value v
               in (None, sh\<lparr>cells := (cells sh)(cell_address \<mapsto> formatted_value)\<rparr>))"

definition write_data_row ::
  "engine \<Rightarrow> string list \<Rightarrow> row \<Rightarrow> nat \<times> sheet \<Rightarrow> exn option \<times> (nat \<times> sheet)" where
  "write_data_row eng flds row_data st =
     (case st of (row_idx, sh) \<Rightarrow>
        case for_each (write_data_cell eng row_data row_idx) (enumerate_list flds) sh of
          (None, sh') \<Rightarrow> (None, (row_idx + 1, sh'))
        | (Some e, sh') \<Rightarrow> (Some e, (row_idx, sh')))"

definition write_chunk ::
  "engine \<Rightarrow> string list \<Rightarrow> row list \<Rightarrow> nat \<Rightarrow> nat \<Rightarrow> nat \<times> sheet \<Rightarrow> exn option \<times> (nat \<times> sheet)" where
  "write_chunk eng flds data chunk_size i st =
     for_each (write_data_row eng flds) (take chunk_size (drop i data)) st"

definition autosize_column :: "engine \<Rightarrow> nat \<Rightarrow> sheet \<Rightarrow> exn option \<times> sheet" where
  "autosize_column eng col_idx sh =
     (case autosize_fault eng col_idx of
        None \<Rightarrow> (None, sh\<lparr>widths := widths sh @ [(col_idx, AutoSized)]\<rparr>)
      | Some e \<Rightarrow>
          if is_AttributeError e
          then (case set_width_fault eng col_idx of
                  None \<Rightarrow> (None, sh\<lparr>widths := widths sh @ [(col_idx, FixedWidth 15)]\<rparr>)
                | Some e' \<Rightarrow> if is_AttributeError e' then (None, sh) else (Some e', sh))
          else (Some e, sh))"

definition write_data_to_worksheet_try ::
  "engine \<Rightarrow> sheet \<Rightarrow> row list \<Rightarrow> string list \<Rightarrow> bool \<Rightarrow> exn option \<times> sheet" where
  "write_data_to_worksheet_try eng worksheet data flds fast_mode =
     (case for_each (write_header_cell eng) (enumerate_list flds) worksheet of
        (Some e, sh) \<Rightarrow> (Some e, sh)
      | (None, sh) \<Rightarrow>
          let chunk_size = (if fast_mode then 10000 else 1000)
          in case for_each (write_chunk eng flds data chunk_size)
                    (range_step (length data) chunk_size) (2, sh) of
               (Some e, (row_idx, sh')) \<Rightarrow> (Some e, sh')
             | (None, (row_idx, sh')) \<Rightarrow>
                 for_each (autosize_column eng) [0..<length flds] sh')"

definition write_data_to_worksheet ::
  "engine \<Rightarrow> sheet \<Rightarrow> row list \<Rightarrow> string list \<Rightarrow> bool \<Rightarrow> exn option \<times> sheet" where
  "write_data_to_worksheet eng worksheet data flds fast_mode =
     (case write_data_to_worksheet_try eng worksheet data flds fast_mode of
        (Some e, sh) \<Rightarrow> (Some (ExcelGenerationError (''Error escribiendo datos: '' @ str_exn e)), sh)
      | (None, sh) \<Rightarrow> (None, sh))"

text \<open>
  \<open>_clear_data_preserve_format\<close>: rows 2 to 2000 of the template; a cell with a
  non-empty value is set to the empty string, a cell that cannot be read is skipped, and
  the scan stops after an all-empty row past \<open>row_index = 15\<close>.
\<close>

definition clear_cell :: "engine \<Rightarrow> nat \<Rightarrow> bool \<times> sheet \<Rightarrow> nat \<Rightarrow> bool \<times> sheet" where
  "clear_cell eng row_index st col_index =
     (case st of (all_empty, sh) \<Rightarrow>
        let cell_address = generator_get_column_letter (int col_index) @ str_int (int row_index + 1)
        in case cell_fault eng cell_address of
             Some e \<Rightarrow> (all_empty, sh)
           | None \<Rightarrow>
               (case cells sh cell_address of
                  None \<Rightarrow> (all_empty, sh)
                | Some v \<Rightarrow>
                    if v \<noteq> [] then (False, sh\<lparr>cells := (cells sh)(cell_address \<mapsto> [])\<rparr>)
                    else (all_empty, sh)))"

fun clear_rows :: "engine \<Rightarrow> nat \<Rightarrow> nat list \<Rightarrow> sheet \<Rightarrow> sheet" where
  "clear_rows eng num_columns [] sh = sh"
| "clear_rows eng num_columns (row_index # rest) sh =
     (case foldl (clear_cell eng row_index) (True, sh) [0..<num_columns] of
        (all_empty, sh') \<Rightarrow>
          if all_empty \<and> row_index > 15 then sh'
          else clear_rows eng num_columns rest sh')"

definition clear_data_preserve_format :: "engine \<Rightarrow> sheet \<Rightarrow> nat \<Rightarrow> sheet" where
  "clear_data_preserve_format eng worksheet num_columns =
     clear_rows eng num_columns [1..<2000] worksheet"

definition save_workbook_to_bytes :: "engine \<Rightarrow> sheet \<Rightarrow> exn + nat list" where
  "save_workbook_to_bytes eng workbook =
     (case save_fault eng of
        Some e \<Rightarrow> Inl (ExcelGenerationError (''Error saving Excel to bytes: '' @ str_exn e))
      | None \<Rightarrow> Inr (serialize eng workbook))"

definition create_excel_file_try ::
  "engine \<Rightarrow> row list \<Rightarrow> string list \<Rightarrow> string \<Rightarrow> bool \<Rightarrow> exn + nat list" where
  "create_excel_file_try eng data flds template fast_mode =
     (case (case template_sheet eng template of
              Some (Inl e) \<Rightarrow> Inl e
            | Some (Inr sh) \<Rightarrow> Inr (clear_data_preserve_format eng sh (length flds))
            | None \<Rightarrow> Inr \<lparr>sheet_name = ''Data'', cells = Map.empty, styled = [], widths = []\<rparr>) of
        Inl e \<Rightarrow> Inl e
      | Inr worksheet \<Rightarrow>
          (case write_data_to_worksheet eng worksheet data flds fast_mode of
             (Some e, sh) \<Rightarrow> Inl e
           | (None, sh) \<Rightarrow> save_workbook_to_bytes eng sh))"

definition create_excel_file ::
  "engine \<Rightarrow> row list \<Rightarrow> string list \<Rightarrow> string \<Rightarrow> bool \<Rightarrow> exn + nat list" where
  "create_excel_file eng data flds template fast_mode =
     (case create_excel_file_try eng data flds template fast_mode of
        Inl e \<Rightarrow> Inl (ExcelGenerationError (''Error creando Excel: '' @ str_exn e))
      | Inr excel_bytes \<Rightarrow> Inr excel_bytes)"

text \<open>
  \<open>_validate_fields\<close> raises \<open>ExcelGenerationError\<close> itself for invalid fields and
  converts a \<open>DatabaseError\<close> of the column lookup; any other exception passes through.
\<close>

definition validate_fields :: "store \<Rightarrow> string \<Rightarrow> string list \<Rightarrow> (exn + unit) \<times> query list" where
  "validate_fields st table flds =
     (case get_table_columns st table of
        (Inl e, issued) \<Rightarrow>
          (if is_DatabaseError e
           then Inl (ExcelGenerationError (''Error validando campos: '' @ str_exn e))
           else Inl e, issued)
      | (Inr table_columns, issued) \<Rightarrow>
          let invalid_fields = filter (\<lambda>field. field \<notin> set table_columns) flds
          in if invalid_fields \<noteq> []
             then (Inl (ExcelGenerationError
                    (''Campos inv'' @ a_acute @ ''lidos para tabla '' @ table @ '': ''
                      @ py_repr_list invalid_fields)), issued)
             else (Inr (), issued))"

definition generator_fetch_data ::
  "store \<Rightarrow> string \<Rightarrow> string list \<Rightarrow> (string, pyval) pydict \<Rightarrow> (exn + row list) \<times> query list" where
  "generator_fetch_data st table flds filters =
     (case fetch_data st table flds filters of
        (Inl e, issued) \<Rightarrow>
          (if is_DatabaseError e
           then Inl (ExcelGenerationError (''Error obteniendo datos: '' @ str_exn e))
           else Inl e, issued)
      | (Inr data, issued) \<Rightarrow> (Inr data, issued))"

definition generate_excel_try ::
  "store \<Rightarrow> engine \<Rightarrow> string \<Rightarrow> string list \<Rightarrow> (string, pyval) pydict option \<Rightarrow> string
     \<Rightarrow> (exn + nat list) \<times> query list" where
  "generate_excel_try st eng table flds filters template =
     (case validate_fields st table flds of
        (Inl e, issued) \<Rightarrow> (Inl e, issued)
      | (Inr u, issued) \<Rightarrow>
          (case generator_fetch_data st table flds (case filters of None \<Rightarrow> [] | Some f \<Rightarrow> f) of
             (Inl e, issued') \<Rightarrow> (Inl e, issued @ issued')
           | (Inr data, issued') \<Rightarrow>
               (create_excel_file eng data flds template True, issued @ issued')))"

definition generate_excel ::
  "store \<Rightarrow> engine \<Rightarrow> string \<Rightarrow> string list \<Rightarrow> (string, pyval) pydict option \<Rightarrow> string
     \<Rightarrow> (exn + nat list) \<times> query list" where
  "generate_excel st eng table flds filters template =
     (case generate_excel_try st eng table flds filters template of
        (Inl e, issued) \<Rightarrow> (Inl (ExcelGenerationError (''Error generando Excel: '' @ str_exn e)), issued)
      | (Inr excel_buffer, issued) \<Rightarrow> (Inr excel_buffer, issued))"

fun is_SelectQuery :: "query \<Rightarrow> bool" where
  "is_SelectQuery (SelectQuery q params) = True"
| "is_SelectQuery (SchemaQuery t) = False"

section \<open>Import pipeline (services/upload_service.py)\<close>

text \<open>
  The default worksheet of an uploaded workbook, as the Workbook Engine presents it: its
  used row and column counts and, for a cell address, the cell's value or the exception
  that reading it raises.
\<close>

record upload_worksheet =
  RowCount :: nat
  ColumnCount :: nat
  cell_value :: "string \<Rightarrow> exn + pyval"

type_synonym upload_row = "(string, string) pydict"

record scan =
  sc_has_data :: bool
  sc_headers :: "string list"
  sc_row_data :: upload_row

definition scan_cell :: "upload_worksheet \<Rightarrow> bool \<Rightarrow> nat \<Rightarrow> scan \<Rightarrow> nat \<Rightarrow> scan" where
  "scan_cell worksheet first_row row_index sc col_index =
     (case cell_value worksheet
             (upload_get_column_letter (int col_index) @ str_int (int row_index + 1)) of
        Inl e \<Rightarrow> sc
      | Inr v \<Rightarrow>
          if v \<noteq> PyNone \<and> py_strip (py_str v) \<noteq> []
          then (if first_row
                then sc\<lparr>sc_has_data := True, sc_headers := sc_headers sc @ [py_strip (py_str v)]\<rparr>
                else if col_index < length (sc_headers sc) \<and> sc_headers sc ! col_index \<noteq> []
                then sc\<lparr>sc_has_data := True,
                        sc_row_data := AList.update (sc_headers sc ! col_index)
                                         (py_strip (py_str v)) (sc_row_data sc)\<rparr>
                else sc\<lparr>sc_has_data := True\<rparr>)
          else (if first_row then sc\<lparr>sc_headers := sc_headers sc @ ['''']\<rparr> else sc))"

fun read_rows ::
  "upload_worksheet \<Rightarrow> nat list \<Rightarrow> upload_row list \<Rightarrow> string list \<Rightarrow> bool
     \<Rightarrow> exn + upload_row list" where
  "read_rows worksheet [] acc hdrs first_row = Inr acc"
| "read_rows worksheet (row_index # rest) acc hdrs first_row =
     (let sc = foldl (scan_cell worksheet first_row row_index)
                 \<lparr>sc_has_data = False, sc_headers = hdrs, sc_row_data = []\<rparr>
                 [0..<ColumnCount worksheet]
      in if first_row
         then (let hdrs' = filter (\<lambda>h. h \<noteq> []) (sc_headers sc)
               in if hdrs' = []
                  then Inl (ValidationError
                         (''No se encontraron headers v'' @ a_acute @ ''lidos en el archivo Excel''))
                  else read_rows worksheet rest acc hdrs' False)
         else if sc_has_data sc \<and> sc_row_data sc \<noteq> []
         then read_rows worksheet rest (acc @ [sc_row_data sc]) (sc_headers sc) False
         else if \<not> sc_has_data sc \<and> length acc > 0
         then Inr acc
         else read_rows worksheet rest acc (sc_headers sc) False)"

text \<open>
  The environment of one upload: the Workbook Engine's loader, and for each stage that
  talks to the file system or the store the exception it raises, if any. The column
  lookup returns the \<open>data_type\<close> of the first row of the introspection query, or
  \<open>None\<close> when there is no row. \<open>set_order\<close> is the order in which Python iterates
  the set of the given keys, which depends on the hash seed of the process.
\<close>

record upload_env =
  load_workbook :: "nat list \<Rightarrow> exn + upload_worksheet"
  csv_fault :: "exn option"
  stage_fault :: "exn option"
  copy_fault :: "exn option"
  column_data_type :: "string \<Rightarrow> string \<Rightarrow> exn + string option"
  merge_fault :: "exn option"
  drop_fault :: "exn option"
  set_order :: "string list \<Rightarrow> string list"

definition read_excel_file_ironxl_try :: "upload_env \<Rightarrow> nat list \<Rightarrow> exn + upload_row list" where
  "read_excel_file_ironxl_try env excel_data =
     (case load_workbook env excel_data of
        Inl e \<Rightarrow> Inl e
      | Inr worksheet \<Rightarrow>
          (case read_rows worksheet [0..<RowCount worksheet] [] [] True of
             Inl e \<Rightarrow> Inl e
           | Inr parsed \<Rightarrow>
               if parsed = []
               then Inl (ValidationError
                      (''El archivo Excel est'' @ a_acute @ '' vac'' @ i_acute
                        @ ''o o no contiene datos v'' @ a_acute @ ''lidos''))
               else Inr parsed))"

definition read_excel_file_ironxl :: "upload_env \<Rightarrow> nat list \<Rightarrow> exn + upload_row list" where
  "read_excel_file_ironxl env excel_data =
     (case read_excel_file_ironxl_try env excel_data of
        Inl e \<Rightarrow> Inl (ValidationError (''Error leyendo archivo Excel: '' @ str_exn e))
      | Inr parsed \<Rightarrow> Inr parsed)"

definition pg_types :: "(string \<times> string) list" where
  "pg_types =
     [(''integer'', ''integer''),
      (''bigint'', ''bigint''),
      (''smallint'', ''smallint''),
      (''numeric'', ''numeric''),
      (''double precision'', ''double precision''),
      (''real'', ''real''),
      (''boolean'', ''boolean''),
      (''date'', ''date''),
      (''timestamp without time zone'', ''timestamp''),
      (''timestamp with time zone'', ''timestamptz''),
      (''character varying'', ''varchar''),
      (''character'', ''char''),
      (''text'', ''text'')]"

definition get_column_db_type :: "upload_env \<Rightarrow> string \<Rightarrow> string \<Rightarrow> exn + string" where
  "get_column_db_type env table_name column =
     (case column_data_type env table_name column of
        Inl e \<Rightarrow> Inl e
      | Inr None \<Rightarrow> Inr ''text''
      | Inr (Some data_type) \<Rightarrow> Inr (dict_get pg_types data_type ''text''))"

fun cast_columns :: "upload_env \<Rightarrow> string \<Rightarrow> string list \<Rightarrow> exn + string list" where
  "cast_columns env table_name [] = Inr []"
| "cast_columns env table_name (col # cols) =
     (case get_column_db_type env table_name col of
        Inl e \<Rightarrow> Inl e
      | Inr ty \<Rightarrow>
          (case cast_columns env table_name cols of
             Inl e \<Rightarrow> Inl e
           | Inr rest \<Rightarrow> Inr ((dq @ col @ dq @ ''::'' @ ty) # rest)))"

text \<open>
  \<open>csv.DictWriter.writerows\<close> raises \<open>ValueError\<close> for the first row that has a key
  outside \<open>fieldnames\<close>. The message joins the set \<open>rowdict.keys() - fieldnames\<close>, so
  the offending keys come in the set's iteration order, which the environment gives.
\<close>

definition write_csv :: "upload_env \<Rightarrow> string list \<Rightarrow> upload_row list \<Rightarrow> exn option" where
  "write_csv env fieldnames parsed =
     (case csv_fault env of
        Some e \<Rightarrow> Some e
      | None \<Rightarrow>
          (case filter (\<lambda>r. filter (\<lambda>k. k \<notin> set fieldnames) (dict_keys r) \<noteq> []) parsed of
             [] \<Rightarrow> None
           | r # others \<Rightarrow>
               Some (ValueError (''dict contains fields not in fieldnames: ''
                 @ py_join '', '' (map py_repr_str
                     (set_order env (filter (\<lambda>k. k \<notin> set fieldnames) (dict_keys r))))))))"

definition staging_table_name :: "string \<Rightarrow> string" where
  "staging_table_name table_name = ''staging_'' @ table_name @ ''_upsert''"

definition drop_sql :: "string \<Rightarrow> string" where
  "drop_sql staging_table = ''DROP TABLE IF EXISTS '' @ dq @ staging_table @ dq"

definition create_sql :: "string \<Rightarrow> string list \<Rightarrow> string" where
  "create_sql staging_table fieldnames =
     ''CREATE TABLE '' @ dq @ staging_table @ dq @ '' (''
       @ py_join '', '' (map (\<lambda>col. dq @ col @ dq @ '' text'') fieldnames) @ '')''"

definition copy_sql :: "string \<Rightarrow> string list \<Rightarrow> string" where
  "copy_sql staging_table fieldnames =
     ''COPY '' @ dq @ staging_table @ dq @ '' ('' @ py_join '', '' fieldnames
       @ '') FROM STDIN WITH (FORMAT CSV, HEADER TRUE, DELIMITER '' @ dq @ '','' @ dq @ '')''"

definition insert_sql :: "string \<Rightarrow> string \<Rightarrow> string list \<Rightarrow> string list \<Rightarrow> string list \<Rightarrow> string" where
  "insert_sql table_name staging_table fieldnames conflict_columns cast_cols =
     (let update_cols = filter (\<lambda>col. col \<notin> set conflict_columns) fieldnames;
          set_clause = py_join '', ''
            (map (\<lambda>col. dq @ col @ dq @ '' = EXCLUDED.'' @ dq @ col @ dq) update_cols);
          indent = replicate 16 (CHR '' '')
      in newline
         @ indent @ ''INSERT INTO '' @ dq @ table_name @ dq @ '' (''
             @ py_join '', '' (map (\<lambda>col. dq @ col @ dq) fieldnames) @ '')'' @ newline
         @ indent @ ''SELECT '' @ py_join '', '' cast_cols @ '' FROM '' @ dq @ staging_table @ dq
             @ newline
         @ indent @ ''ON CONFLICT (''
             @ py_join '', '' (map (\<lambda>col. dq @ col @ dq) conflict_columns) @ '') DO UPDATE''
             @ newline
         @ indent @ ''SET '' @ set_clause @ newline
         @ indent)"

text \<open>
  The store as the upload sees it: the tables that exist and the statements committed
  so far. A stage that raises inside \<open>engine.begin()\<close> is rolled back and leaves both
  unchanged.
\<close>

record database =
  tables :: "string set"
  committed :: "string list"

record upload_result =
  success :: bool
  message :: string
  rows_processed :: nat
  errors :: "string list option"

definition upload_excel_to_table_try ::
  "upload_env \<Rightarrow> nat list \<Rightarrow> string \<Rightarrow> string list \<Rightarrow> database \<Rightarrow> (exn + nat) \<times> database" where
  "upload_excel_to_table_try env excel_data table_name conflict_columns db =
     (case read_excel_file_ironxl env excel_data of
        Inl e \<Rightarrow> (Inl e, db)
      | Inr [] \<Rightarrow> (Inl (ValidationError (''El archivo Excel est'' @ a_acute @ '' vac'' @ i_acute @ ''o'')), db)
      | Inr (first # others) \<Rightarrow>
          let parsed = first # others;
              fieldnames = dict_keys first;
              staging_table = staging_table_name table_name
          in case write_csv env fieldnames parsed of
               Some e \<Rightarrow> (Inl e, db)
             | None \<Rightarrow>
          (case stage_fault env of
               Some e \<Rightarrow> (Inl e, db)
             | None \<Rightarrow>
          let db1 = db\<lparr>tables := insert staging_table (tables db),
                       committed := committed db
                         @ [drop_sql staging_table, create_sql staging_table fieldnames]\<rparr>
          in case copy_fault env of
               Some e \<Rightarrow> (Inl e, db1)
             | None \<Rightarrow>
          let db2 = db1\<lparr>committed := committed db1 @ [copy_sql staging_table fieldnames]\<rparr>
          in case cast_columns env table_name fieldnames of
               Inl e \<Rightarrow> (Inl e, db2)
             | Inr cast_cols \<Rightarrow>
          (case merge_fault env of
               Some e \<Rightarrow> (Inl e, db2)
             | None \<Rightarrow>
          let db3 = db2\<lparr>committed := committed db2
                         @ [insert_sql table_name staging_table fieldnames conflict_columns cast_cols]\<rparr>
          in case drop_fault env of
               Some e \<Rightarrow> (Inl e, db3)
             | None \<Rightarrow>
          (Inr (length parsed),
           db3\<lparr>tables := tables db3 - {staging_table},
               committed := committed db3 @ [drop_sql staging_table]\<rparr>))))"

definition upload_excel_to_table ::
  "upload_env \<Rightarrow> nat list \<Rightarrow> string \<Rightarrow> string list \<Rightarrow> database
     \<Rightarrow> (exn + upload_result) \<times> database" where
  "upload_excel_to_table env excel_data table_name conflict_columns db =
     (case upload_excel_to_table_try env excel_data table_name conflict_columns db of
        (Inr n, db') \<Rightarrow>
          (Inr \<lparr>success = True,
                message = ''Archivo cargado y upsert masivo realizado con COPY (''
                            @ str_int (int n) @ '' filas)'',
                rows_processed = n,
                errors = None\<rparr>, db')
      | (Inl e, db') \<Rightarrow>
          (Inr \<lparr>success = False,
                message = ''Error en carga COPY+upsert: '' @ str_exn e,
                rows_processed = 0,
                errors = Some [str_exn e]\<rparr>, db'))"

text \<open>
  The two dictionaries \<open>upload_excel_to_table\<close> returns, by name: the one of the
  \<open>except\<close> branch for the exception caught, and the one of a completed upload of
  \<open>n\<close> rows.
\<close>

definition failure_result :: "exn \<Rightarrow> upload_result" where
  "failure_result e =
     \<lparr>success = False,
      message = ''Error en carga COPY+upsert: '' @ str_exn e,
      rows_processed = 0,
      errors = Some [str_exn e]\<rparr>"

definition success_result :: "nat \<Rightarrow> upload_result" where
  "success_result n =
     \<lparr>success = True,
      message = ''Archivo cargado y upsert masivo realizado con COPY (''
                  @ str_int (int n) @ '' filas)'',
      rows_processed = n,
      errors = None\<rparr>"

text \<open>
  A worksheet given by its grid of values, for the examples: cell \<open>(r, c)\<close> has the
  address of column \<open>c\<close> followed by \<open>r + 1\<close>; any other address reads as \<open>None\<close>.
\<close>

definition grid_cells :: "pyval list list \<Rightarrow> (string \<times> pyval) list" where
  "grid_cells grid =
     concat (map (\<lambda>(r, cs). map (\<lambda>(c, v).
         (upload_get_column_letter (int c) @ str_int (int r + 1), v)) (enumerate_list cs))
       (enumerate_list grid))"

definition grid_worksheet :: "pyval list list \<Rightarrow> upload_worksheet" where
  "grid_worksheet grid =
     \<lparr>RowCount = length grid,
      ColumnCount = foldl max 0 (map length grid),
      cell_value = (\<lambda>a. Inr (dict_get (grid_cells grid) a PyNone))\<rparr>"

section \<open>Example environments\<close>


text \<open>
  An upload of a two-column sheet with one data row into table \<open>orders\<close>, with no stage
  failing, and the same upload with the bulk load, respectively the merge, failing.
\<close>

definition example_grid :: "pyval list list" where
  "example_grid = [[PyStr ''id'', PyStr ''name''], [PyInt 1, PyStr ''Bob'']]"

definition example_env :: upload_env where
  "example_env =
     \<lparr>load_workbook = (\<lambda>b. Inr (grid_worksheet example_grid)),
      csv_fault = None, stage_fault = None, copy_fault = None,
      column_data_type = (\<lambda>t c. Inr (if c = ''id'' then Some ''integer'' else None)),
      merge_fault = None, drop_fault = None,
      set_order = (\<lambda>ks. ks)\<rparr>"

definition copy_fails_env :: upload_env where
  "copy_fails_env = example_env\<lparr>copy_fault := Some (OtherException ''connection lost'')\<rparr>"


text \<open>
  The same upload with the staging transaction failing, with the column lookup raising,
  and an upload whose second data row has a key that the first row lacks.
\<close>

definition stage_fails_env :: upload_env where
  "stage_fails_env = example_env\<lparr>stage_fault := Some (OtherException ''permission denied'')\<rparr>"

definition cast_fails_env :: upload_env where
  "cast_fails_env =
     example_env\<lparr>column_data_type := (\<lambda>t c. Inl (OtherException ''lookup failed''))\<rparr>"

definition ragged_grid :: "pyval list list" where
  "ragged_grid =
     [[PyStr ''id'', PyStr ''name''],
      [PyInt 1, PyNone],
      [PyInt 2, PyStr ''Bob'']]"

definition ragged_env :: upload_env where
  "ragged_env = example_env\<lparr>load_workbook := (\<lambda>b. Inr (grid_worksheet ragged_grid))\<rparr>"

definition example_db :: database where
  "example_db = \<lparr>tables = {''orders''}, committed = []\<rparr>"

text \<open>
  A sheet whose header row has a blank cell between two names, and one data row.
\<close>

definition blank_header_grid :: "pyval list list" where
  "blank_header_grid =
     [[PyStr ''id'', PyStr [], PyStr ''name''],
      [PyInt 1, PyStr ''x'', PyStr ''Bob'']]"

definition blank_header_env :: upload_env where
  "blank_header_env =
     example_env\<lparr>load_workbook := (\<lambda>b. Inr (grid_worksheet blank_header_grid))\<rparr>"

text \<open>
  A store with the table \<open>orders\<close> of columns \<open>id\<close>, \<open>name\<close>, \<open>paid\<close> and no other
  table, and a Workbook Engine in which nothing fails.
\<close>

definition example_store :: store where
  "example_store =
     \<lparr>schema_columns = (\<lambda>t. if t = ''orders'' then Inr [''id'', ''name'', ''paid''] else Inr []),
      run_select = (\<lambda>q params. Inr ([''id'', ''name''], [[PyInt 1, PyStr ''Bob'']]))\<rparr>"

definition example_engine :: engine where
  "example_engine =
     \<lparr>cell_fault = (\<lambda>a. None), style_fault = (\<lambda>a. None),
      autosize_fault = (\<lambda>c. None), set_width_fault = (\<lambda>c. None),
      template_sheet = (\<lambda>t. None), save_fault = None, serialize = (\<lambda>sh. [])\<rparr>"








section \<open>Properties of the column codec\<close>

lemma generator_loop_append:
  "generator_column_letter_loop c (res @ res') = generator_column_letter_loop c res @ res'"
proof (induction c res arbitrary: res' rule: generator_column_letter_loop.induct)
  case (1 c res)
  show ?case
  proof (cases "c > 0")
    case True
    show ?thesis
      using "1.IH" [OF True, of res'] True
      by (simp add: generator_column_letter_loop.simps [of c])
  next
    case False
    then show ?thesis
      by (simp add: generator_column_letter_loop.simps [of c])
  qed
qed

lemma generator_loop_step:
  "0 < c \<Longrightarrow> generator_column_letter_loop c [] =
     generator_column_letter_loop ((c - 1) div 26) [] @ [char_of ((c - 1) mod 26 + of_char (CHR ''A''))]"
  using generator_loop_append [of "(c - 1) div 26" "[]" "[char_of ((c - 1) mod 26 + of_char (CHR ''A''))]"]
  by (simp add: generator_column_letter_loop.simps [of c "[]"])

lemma generator_loop_stop: "c \<le> 0 \<Longrightarrow> generator_column_letter_loop c res = res"
  by (simp add: generator_column_letter_loop.simps [of c])

lemma letters_value_snoc: "letters_value (s @ [c]) = letters_value s * 26 + letter_value c"
  by (simp add: letters_value_def)

lemma letter_value_char_of:
  "0 \<le> r \<Longrightarrow> r < 26 \<Longrightarrow> letter_value (char_of (r + 65 :: int)) = r + 1"
  by (simp add: letter_value_def)

lemma is_upper_letter_char_of:
  "0 \<le> r \<Longrightarrow> r < 26 \<Longrightarrow> is_upper_letter (char_of (r + 65 :: int))"
  by (simp add: is_upper_letter_def)

lemma generator_loop_value:
  "0 \<le> c \<Longrightarrow> letters_value (generator_column_letter_loop c []) = c"
proof (induction "nat c" arbitrary: c rule: less_induct)
  case less
  show ?case
  proof (cases "c > 0")
    case True
    let ?q = "(c - 1) div 26"
    let ?r = "(c - 1) mod 26"
    have q: "0 \<le> ?q" "nat ?q < nat c" using True by auto
    have "letters_value (generator_column_letter_loop ?q []) = ?q"
      using less.hyps [OF q(2) q(1)] .
    then show ?thesis
      using True by (simp add: generator_loop_step letters_value_snoc letter_value_char_of)
  next
    case False
    with less.prems have "c = 0" by simp
    then show ?thesis
      by (simp add: generator_loop_stop letters_value_def)
  qed
qed

lemma generator_loop_letters:
  "list_all is_upper_letter (generator_column_letter_loop c [])"
proof (induction "nat c" arbitrary: c rule: less_induct)
  case less
  show ?case
  proof (cases "c > 0")
    case True
    let ?q = "(c - 1) div 26"
    have q: "nat ?q < nat c" using True by auto
    show ?thesis
      using True less.hyps [OF q] by (simp add: generator_loop_step is_upper_letter_char_of)
  next
    case False
    then show ?thesis
      by (simp add: generator_loop_stop)
  qed
qed

lemma generator_loop_nonempty: "0 < c \<Longrightarrow> generator_column_letter_loop c [] \<noteq> []"
  by (simp add: generator_loop_step)

lemma letter_value_range: "is_upper_letter c \<Longrightarrow> 1 \<le> letter_value c \<and> letter_value c \<le> 26"
  by (simp add: is_upper_letter_def letter_value_def)

lemma char_of_letter_value: "char_of (64 + letter_value c) = c"
  by (simp add: letter_value_def)

lemma letters_value_nonneg: "list_all is_upper_letter s \<Longrightarrow> 0 \<le> letters_value s"
proof (induction s rule: rev_induct)
  case Nil
  then show ?case by (simp add: letters_value_def)
next
  case (snoc c s)
  then show ?case
    using letter_value_range [of c] by (simp add: letters_value_snoc)
qed

lemma letters_encode:
  "list_all is_upper_letter s \<Longrightarrow> generator_column_letter_loop (letters_value s) [] = s"
proof (induction s rule: rev_induct)
  case Nil
  then show ?case by (simp add: letters_value_def generator_loop_stop)
next
  case (snoc c s)
  let ?v = "letters_value s"
  let ?d = "letter_value c"
  let ?n = "?v * 26 + ?d"
  have v: "0 \<le> ?v" using snoc.prems by (simp add: letters_value_nonneg)
  have d: "1 \<le> ?d" "?d \<le> 26" using snoc.prems letter_value_range [of c] by simp_all
  have n: "0 < ?n" using v d by simp
  have split: "?n - 1 = (?d - 1) + ?v * 26" by simp
  have dm: "(?n - 1) div 26 = ?v" "(?n - 1) mod 26 = ?d - 1"
    using d unfolding split by simp_all
  have "generator_column_letter_loop ?n [] = generator_column_letter_loop ?v [] @ [c]"
    using generator_loop_step [OF n] dm by (simp add: char_of_letter_value)
  then show ?case
    using snoc by (simp add: letters_value_snoc)
qed

lemma upload_loop_eq: "upload_column_letter_loop c res = generator_column_letter_loop c res"
proof (induction c res rule: generator_column_letter_loop.induct)
  case (1 c res)
  show ?case
  proof (cases "c > 0")
    case True
    then show ?thesis
      using "1.IH" [OF True]
      by (simp add: generator_column_letter_loop.simps [of c] upload_column_letter_loop.simps [of c])
  next
    case False
    then show ?thesis
      by (simp add: generator_column_letter_loop.simps [of c] upload_column_letter_loop.simps [of c])
  qed
qed


lemma generator_letter_example_A: "generator_get_column_letter 0 = ''A''"
  by code_simp

lemma generator_letter_example_Z: "generator_get_column_letter 25 = ''Z''"
  by code_simp

lemma generator_letter_example_AA: "generator_get_column_letter 26 = ''AA''"
  by code_simp

lemma letters_to_index_example_AA: "letters_to_index ''AA'' = 26"
  by (simp add: letters_to_index_def letters_value_def letter_value_def)

text \<open>
  Claim C1. For every non-negative index \<open>i\<close>, \<open>_get_column_letter i\<close> (either copy) is
  the bijective base-26 column label of \<open>i\<close>: a non-empty string of the letters \<open>A\<close> to
  \<open>Z\<close> which the letters-to-index function decodes to \<open>i\<close> again, and the only string of
  such letters that does. Hence two non-negative indices with the same label are equal.
\<close>

theorem get_column_letter_roundtrip:
  assumes "0 \<le> i"
  shows "letters_to_index (generator_get_column_letter i) = i
       \<and> letters_to_index (upload_get_column_letter i) = i
       \<and> generator_get_column_letter i \<noteq> []
       \<and> list_all is_upper_letter (generator_get_column_letter i)
       \<and> (\<forall>s. list_all is_upper_letter s \<and> letters_to_index s = i
              \<longrightarrow> s = generator_get_column_letter i)
       \<and> (\<forall>j. 0 \<le> j \<and> generator_get_column_letter j = generator_get_column_letter i
              \<longrightarrow> j = i)"
proof -
  have pos: "0 < i + 1" "0 \<le> i + 1" using assms by simp_all
  have rt: "letters_to_index (generator_get_column_letter i) = i"
    by (simp add: letters_to_index_def generator_get_column_letter_def
        generator_loop_value [OF pos(2)])
  have up: "upload_get_column_letter i = generator_get_column_letter i"
    by (simp add: upload_get_column_letter_def generator_get_column_letter_def upload_loop_eq)
  have ne: "generator_get_column_letter i \<noteq> []"
    by (simp add: generator_get_column_letter_def generator_loop_nonempty [OF pos(1)])
  have letters: "list_all is_upper_letter (generator_get_column_letter i)"
    by (simp add: generator_get_column_letter_def generator_loop_letters)
  have uniq: "s = generator_get_column_letter i"
    if "list_all is_upper_letter s \<and> letters_to_index s = i" for s
  proof -
    from that have "letters_value s = i + 1"
      by (simp add: letters_to_index_def)
    moreover have "generator_column_letter_loop (letters_value s) [] = s"
      using that by (simp add: letters_encode)
    ultimately show ?thesis
      by (simp add: generator_get_column_letter_def)
  qed
  have inj: "j = i"
    if "0 \<le> j \<and> generator_get_column_letter j = generator_get_column_letter i" for j
  proof -
    from that have "0 \<le> j + 1" by simp
    then have "letters_to_index (generator_get_column_letter j) = j"
      by (simp add: letters_to_index_def generator_get_column_letter_def generator_loop_value)
    moreover have "letters_to_index (generator_get_column_letter j) = i"
      using that rt by (simp only:)
    ultimately show ?thesis by (simp only:)
  qed
  show ?thesis
  proof (intro conjI allI impI)
    show "letters_to_index (generator_get_column_letter i) = i" by (rule rt)
    show "letters_to_index (upload_get_column_letter i) = i" by (simp only: up rt)
    show "generator_get_column_letter i \<noteq> []" by (rule ne)
    show "list_all is_upper_letter (generator_get_column_letter i)" by (rule letters)
    show "s = generator_get_column_letter i"
      if "list_all is_upper_letter s \<and> letters_to_index s = i" for s
      using that by (rule uniq)
    show "j = i"
      if "0 \<le> j \<and> generator_get_column_letter j = generator_get_column_letter i" for j
      using that by (rule inj)
  qed
qed

theorem get_column_letter_roundtrip_witness:
  "(0::int) \<le> 26
   \<and> generator_get_column_letter 26 = ''AA''
   \<and> letters_to_index ''AA'' = 26
   \<and> letters_to_index (upload_get_column_letter 26) = 26"
proof -
  have h: "(0::int) \<le> 26" by simp
  have "letters_to_index (upload_get_column_letter 26) = 26"
    using get_column_letter_roundtrip [OF h] by (rule conjunct2 [THEN conjunct1])
  then show ?thesis
    by (simp add: generator_letter_example_AA letters_to_index_example_AA)
qed

text \<open>
  Claim C10. The export service's and the upload service's copies of
  \<open>_get_column_letter\<close> return the same string on every integer argument.
\<close>

theorem get_column_letter_copies_agree:
  "generator_get_column_letter i = upload_get_column_letter i"
  by (simp add: upload_get_column_letter_def generator_get_column_letter_def upload_loop_eq)

section \<open>Properties of the relational gateway\<close>

lemma foldl_where_step:
  "foldl where_step (conds, params) filters =
     (conds @ map (\<lambda>kv. dq @ fst kv @ dq @ '' = :'' @ fst kv) (filter (\<lambda>kv. snd kv \<noteq> PyNone) filters),
      foldl (\<lambda>d (k, v). AList.update k v d) params (filter (\<lambda>kv. snd kv \<noteq> PyNone) filters))"
proof (induction filters arbitrary: conds params)
  case Nil
  then show ?case by simp
next
  case (Cons kv filters)
  obtain k v where kv: "kv = (k, v)" by (cases kv)
  show ?case
  proof (cases "v = PyNone")
    case True
    then show ?thesis
      using Cons.IH [of conds params] by (simp add: kv where_step_def)
  next
    case False
    then show ?thesis
      using Cons.IH [of "conds @ [dq @ k @ dq @ '' = :'' @ k]" "AList.update k v params"]
      by (simp add: kv where_step_def)
  qed
qed

lemma fetch_data_query_eq:
  "fetch_data_query table_name flds filters =
     (spec_select_query table_name flds filters,
      dict_of_pairs (filter (\<lambda>kv. snd kv \<noteq> PyNone) filters))"
proof (cases "filter (\<lambda>kv. snd kv \<noteq> PyNone) filters")
  case Nil
  then show ?thesis
    by (simp add: fetch_data_query_def spec_select_query_def foldl_where_step dict_of_pairs_def)
next
  case (Cons kv kvs)
  then show ?thesis
    by (simp add: fetch_data_query_def spec_select_query_def foldl_where_step dict_of_pairs_def)
qed

lemma snd_set_update: "snd ` set (AList.update k v d) \<subseteq> insert v (snd ` set d)"
  by (induction d) auto

lemma snd_set_foldl_update:
  "snd ` set (foldl (\<lambda>d (k, v). AList.update k v d) d kvs) \<subseteq> snd ` set d \<union> snd ` set kvs"
proof (induction kvs arbitrary: d)
  case Nil
  then show ?case by simp
next
  case (Cons kv kvs)
  obtain k v where kv: "kv = (k, v)" by (cases kv)
  have "snd ` set (foldl (\<lambda>d (k, v). AList.update k v d) (AList.update k v d) kvs)
          \<subseteq> snd ` set (AList.update k v d) \<union> snd ` set kvs"
    by (rule Cons.IH)
  also have "\<dots> \<subseteq> insert v (snd ` set d) \<union> snd ` set kvs"
    using snd_set_update [of k v d] by blast
  finally show ?case
    by (auto simp: kv)
qed

lemma dict_of_pairs_values: "snd ` set (dict_of_pairs kvs) \<subseteq> snd ` set kvs"
  using snd_set_foldl_update [of "[]" kvs] by (simp add: dict_of_pairs_def)

text \<open>
  Claim C7. \<open>fetch_data\<close> issues one parameterized query: its text is the SELECT over
  the requested fields from the table, with the equality predicates of the filter
  entries whose value is not \<open>None\<close> combined by AND (no WHERE clause when there is
  none), always ended by \<open>LIMIT 200000\<close>; its parameters are the entries whose value is
  not \<open>None\<close>, so no parameter is \<open>None\<close>.
\<close>

theorem fetch_data_query_matches_spec:
  "fetch_data_query table_name flds filters =
     (spec_select_query table_name flds filters,
      dict_of_pairs (filter (\<lambda>kv. snd kv \<noteq> PyNone) filters))
   \<and> snd (fetch_data st table_name flds filters) =
       [SelectQuery (spec_select_query table_name flds filters)
          (dict_of_pairs (filter (\<lambda>kv. snd kv \<noteq> PyNone) filters))]
   \<and> (\<exists>body. fst (fetch_data_query table_name flds filters) = body @ '' LIMIT 200000'')
   \<and> PyNone \<notin> snd ` set (snd (fetch_data_query table_name flds filters))"
proof (intro conjI)
  show "fetch_data_query table_name flds filters =
     (spec_select_query table_name flds filters,
      dict_of_pairs (filter (\<lambda>kv. snd kv \<noteq> PyNone) filters))"
    by (rule fetch_data_query_eq)
  show "snd (fetch_data st table_name flds filters) =
       [SelectQuery (spec_select_query table_name flds filters)
          (dict_of_pairs (filter (\<lambda>kv. snd kv \<noteq> PyNone) filters))]"
    by (simp add: fetch_data_def fetch_data_query_eq)
  show "\<exists>body. fst (fetch_data_query table_name flds filters) = body @ '' LIMIT 200000''"
    unfolding fetch_data_query_eq spec_select_query_def fst_conv append_assoc [symmetric]
    by (rule exI) (rule refl)
  show "PyNone \<notin> snd ` set (snd (fetch_data_query table_name flds filters))"
    using dict_of_pairs_values [of "filter (\<lambda>kv. snd kv \<noteq> PyNone) filters"]
    by (auto simp: fetch_data_query_eq)
qed

lemma fetch_data_query_example:
  "fetch_data_query ''orders'' [''id'', ''name''] [(''paid'', PyBool True), (''x'', PyNone)] =
     (''SELECT '' @ dq @ ''id'' @ dq @ '', '' @ dq @ ''name'' @ dq @ '' FROM '' @ dq @ ''orders'' @ dq
        @ '' WHERE '' @ dq @ ''paid'' @ dq @ '' = :paid LIMIT 200000'',
      [(''paid'', PyBool True)])"
  by (simp add: fetch_data_query_def where_step_def dq_def)

section \<open>Properties of the cell formatter\<close>

text \<open>
  Claim C4. The formatter returns the yes/no text for a boolean. The code does not:
  the \<open>isinstance(value, (int, float))\<close> test comes first and holds for booleans, so
  \<open>True\<close> and \<open>False\<close> are written as \<open>str\<close> gives them and the boolean branch is
  never reached. The other three cases of the claim hold.
\<close>

theorem format_cell_value_bool_is_str:
  "format_cell_value (PyBool True) = ''True''
   \<and> format_cell_value (PyBool False) = ''False''
   \<and> format_cell_value (PyBool True) \<noteq> ''S'' @ i_acute
   \<and> format_cell_value (PyBool False) \<noteq> ''No''"
  by (simp add: format_cell_value_def i_acute_def)

lemma format_cell_value_other_cases:
  "format_cell_value PyNone = ''''"
  "format_cell_value (PyInt i) = str_int i"
  "format_cell_value (PyFloat s) = s"
  "format_cell_value (PyStr s) = s"
  "format_cell_value (PyObj s) = s"
  by (simp_all add: format_cell_value_def)

lemma format_cell_value_never_yes_no:
  "format_cell_value v = (if v = PyNone then '''' else py_str v)"
  by (cases v) (simp_all add: format_cell_value_def)

section \<open>Properties of the cast-resolution lookup\<close>



section \<open>Properties of the upload pipeline\<close>

lemma example_parse:
  "read_excel_file_ironxl example_env [] = Inr [[(''id'', ''1''), (''name'', ''Bob'')]]"
  by code_simp

lemma example_upload_success:
  "fst (upload_excel_to_table example_env [] ''orders'' [''id''] example_db) =
     Inr \<lparr>success = True,
          message = ''Archivo cargado y upsert masivo realizado con COPY (1 filas)'',
          rows_processed = 1, errors = None\<rparr>"
  "tables (snd (upload_excel_to_table example_env [] ''orders'' [''id''] example_db)) = {''orders''}"
  by code_simp+

lemma example_upload_copy_fails:
  "fst (upload_excel_to_table copy_fails_env [] ''orders'' [''id''] example_db) =
     Inr \<lparr>success = False,
          message = ''Error en carga COPY+upsert: connection lost'',
          rows_processed = 0, errors = Some [''connection lost'']\<rparr>"
  "tables (snd (upload_excel_to_table copy_fails_env [] ''orders'' [''id''] example_db))
     = {''staging_orders_upsert'', ''orders''}"
  by code_simp+



lemma example_upload_cast_fails:
  "fst (upload_excel_to_table cast_fails_env [] ''orders'' [''id''] example_db) =
     Inr \<lparr>success = False,
          message = ''Error en carga COPY+upsert: lookup failed'',
          rows_processed = 0, errors = Some [''lookup failed'']\<rparr>"
  by code_simp

lemma example_upload_ragged:
  "fst (upload_excel_to_table ragged_env [] ''orders'' [''id''] example_db) =
     Inr \<lparr>success = False,
          message = ''Error en carga COPY+upsert: dict contains fields not in fieldnames: ''
                      @ sq @ ''name'' @ sq,
          rows_processed = 0,
          errors = Some [''dict contains fields not in fieldnames: '' @ sq @ ''name'' @ sq]\<rparr>"
  by code_simp

lemma example_stage_fault: "stage_fault stage_fails_env = Some (OtherException ''permission denied'')"
  by (simp add: stage_fails_env_def example_env_def)

lemma upload_try_Inr:
  assumes "upload_excel_to_table_try env excel_data table_name conflict_columns db = (Inr n, db')"
  shows "tables db' = tables db - {staging_table_name table_name}"
    and "\<exists>first others casts. read_excel_file_ironxl env excel_data = Inr (first # others)
              \<and> n = length (first # others)
              \<and> write_csv env (dict_keys first) (first # others) = None
              \<and> cast_columns env table_name (dict_keys first) = Inr casts"
    and "stage_fault env = None \<and> copy_fault env = None
          \<and> merge_fault env = None \<and> drop_fault env = None"
  using assms unfolding upload_excel_to_table_try_def Let_def
  by (auto split: sum.splits list.splits option.splits)



lemma upload_try_early:
  "read_excel_file_ironxl env excel_data = Inl e \<Longrightarrow>
     upload_excel_to_table_try env excel_data table_name conflict_columns db = (Inl e, db)"
  "read_excel_file_ironxl env excel_data = Inr [] \<Longrightarrow>
     snd (upload_excel_to_table_try env excel_data table_name conflict_columns db) = db"
  "read_excel_file_ironxl env excel_data = Inr (first # others) \<Longrightarrow>
   write_csv env (dict_keys first) (first # others) = Some e \<Longrightarrow>
     upload_excel_to_table_try env excel_data table_name conflict_columns db = (Inl e, db)"
  "read_excel_file_ironxl env excel_data = Inr (first # others) \<Longrightarrow>
   write_csv env (dict_keys first) (first # others) = None \<Longrightarrow>
   stage_fault env = Some e \<Longrightarrow>
     upload_excel_to_table_try env excel_data table_name conflict_columns db = (Inl e, db)"
  by (simp_all add: upload_excel_to_table_try_def Let_def)


lemma upload_try_late:
  assumes "read_excel_file_ironxl env excel_data = Inr (first # others)"
    and "write_csv env (dict_keys first) (first # others) = None"
    and "stage_fault env = None"
  shows "copy_fault env = Some e \<Longrightarrow>
           fst (upload_excel_to_table_try env excel_data table_name conflict_columns db) = Inl e"
    and "copy_fault env = None \<Longrightarrow>
         cast_columns env table_name (dict_keys first) = Inl e \<Longrightarrow>
           fst (upload_excel_to_table_try env excel_data table_name conflict_columns db) = Inl e"
    and "copy_fault env = None \<Longrightarrow>
         cast_columns env table_name (dict_keys first) = Inr casts \<Longrightarrow>
         merge_fault env = Some e \<Longrightarrow>
           fst (upload_excel_to_table_try env excel_data table_name conflict_columns db) = Inl e"
    and "copy_fault env = None \<Longrightarrow>
         cast_columns env table_name (dict_keys first) = Inr casts \<Longrightarrow>
         merge_fault env = None \<Longrightarrow>
         drop_fault env = Some e \<Longrightarrow>
           fst (upload_excel_to_table_try env excel_data table_name conflict_columns db) = Inl e"
    and "copy_fault env = None \<Longrightarrow>
         cast_columns env table_name (dict_keys first) = Inr casts \<Longrightarrow>
         merge_fault env = None \<Longrightarrow>
         drop_fault env = None \<Longrightarrow>
           fst (upload_excel_to_table_try env excel_data table_name conflict_columns db)
             = Inr (length (first # others))"
  using assms by (simp_all add: upload_excel_to_table_try_def Let_def)

lemma write_csv_None: "write_csv env fieldnames parsed = None \<Longrightarrow> csv_fault env = None"
  by (auto simp: write_csv_def split: option.splits list.splits)

lemma upload_result_of_try:
  "upload_excel_to_table_try env excel_data table_name conflict_columns db = (Inr n, db') \<Longrightarrow>
     upload_excel_to_table env excel_data table_name conflict_columns db =
       (Inr \<lparr>success = True,
             message = ''Archivo cargado y upsert masivo realizado con COPY (''
                         @ str_int (int n) @ '' filas)'',
             rows_processed = n, errors = None\<rparr>, db')"
  "upload_excel_to_table_try env excel_data table_name conflict_columns db = (Inl e, db') \<Longrightarrow>
     upload_excel_to_table env excel_data table_name conflict_columns db =
       (Inr \<lparr>success = False,
             message = ''Error en carga COPY+upsert: '' @ str_exn e,
             rows_processed = 0, errors = Some [str_exn e]\<rparr>, db')"
  by (simp_all add: upload_excel_to_table_def)

lemma upload_fst_of_try:
  "fst (upload_excel_to_table_try env excel_data table_name conflict_columns db) = Inl e \<Longrightarrow>
     fst (upload_excel_to_table env excel_data table_name conflict_columns db)
       = Inr (failure_result e)"
  "fst (upload_excel_to_table_try env excel_data table_name conflict_columns db) = Inr n \<Longrightarrow>
     fst (upload_excel_to_table env excel_data table_name conflict_columns db)
       = Inr (success_result n)"
  by (cases "upload_excel_to_table_try env excel_data table_name conflict_columns db",
      simp add: upload_excel_to_table_def failure_result_def success_result_def)+


lemma upload_stage_failure:
  "read_excel_file_ironxl env excel_data = Inl e \<Longrightarrow>
     fst (upload_excel_to_table env excel_data table_name conflict_columns db)
       = Inr (failure_result e)"
  "read_excel_file_ironxl env excel_data = Inr (first # others) \<Longrightarrow>
   write_csv env (dict_keys first) (first # others) = Some e \<Longrightarrow>
     fst (upload_excel_to_table env excel_data table_name conflict_columns db)
       = Inr (failure_result e)"
  "read_excel_file_ironxl env excel_data = Inr (first # others) \<Longrightarrow>
   write_csv env (dict_keys first) (first # others) = None \<Longrightarrow>
   stage_fault env = Some e \<Longrightarrow>
     fst (upload_excel_to_table env excel_data table_name conflict_columns db)
       = Inr (failure_result e)"
  by (rule upload_fst_of_try(1), simp add: upload_try_early)+

lemma upload_late_outcome:
  assumes "read_excel_file_ironxl env excel_data = Inr (first # others)"
    and "write_csv env (dict_keys first) (first # others) = None"
    and "stage_fault env = None"
  shows "copy_fault env = Some e \<Longrightarrow>
           fst (upload_excel_to_table env excel_data table_name conflict_columns db)
             = Inr (failure_result e)"
    and "copy_fault env = None \<Longrightarrow>
         cast_columns env table_name (dict_keys first) = Inl e \<Longrightarrow>
           fst (upload_excel_to_table env excel_data table_name conflict_columns db)
             = Inr (failure_result e)"
    and "copy_fault env = None \<Longrightarrow>
         cast_columns env table_name (dict_keys first) = Inr casts \<Longrightarrow>
         merge_fault env = Some e \<Longrightarrow>
           fst (upload_excel_to_table env excel_data table_name conflict_columns db)
             = Inr (failure_result e)"
    and "copy_fault env = None \<Longrightarrow>
         cast_columns env table_name (dict_keys first) = Inr casts \<Longrightarrow>
         merge_fault env = None \<Longrightarrow>
         drop_fault env = Some e \<Longrightarrow>
           fst (upload_excel_to_table env excel_data table_name conflict_columns db)
             = Inr (failure_result e)"
    and "copy_fault env = None \<Longrightarrow>
         cast_columns env table_name (dict_keys first) = Inr casts \<Longrightarrow>
         merge_fault env = None \<Longrightarrow>
         drop_fault env = None \<Longrightarrow>
           fst (upload_excel_to_table env excel_data table_name conflict_columns db)
             = Inr (success_result (length (first # others)))"
proof -
  note late = upload_try_late [OF assms]
  show "copy_fault env = Some e \<Longrightarrow>
           fst (upload_excel_to_table env excel_data table_name conflict_columns db)
             = Inr (failure_result e)"
    by (rule upload_fst_of_try(1)) (rule late(1))
  show "copy_fault env = None \<Longrightarrow>
         cast_columns env table_name (dict_keys first) = Inl e \<Longrightarrow>
           fst (upload_excel_to_table env excel_data table_name conflict_columns db)
             = Inr (failure_result e)"
    by (rule upload_fst_of_try(1)) (rule late(2))
  show "copy_fault env = None \<Longrightarrow>
         cast_columns env table_name (dict_keys first) = Inr casts \<Longrightarrow>
         merge_fault env = Some e \<Longrightarrow>
           fst (upload_excel_to_table env excel_data table_name conflict_columns db)
             = Inr (failure_result e)"
    by (rule upload_fst_of_try(1)) (rule late(3))
  show "copy_fault env = None \<Longrightarrow>
         cast_columns env table_name (dict_keys first) = Inr casts \<Longrightarrow>
         merge_fault env = None \<Longrightarrow>
         drop_fault env = Some e \<Longrightarrow>
           fst (upload_excel_to_table env excel_data table_name conflict_columns db)
             = Inr (failure_result e)"
    by (rule upload_fst_of_try(1)) (rule late(4))
  show "copy_fault env = None \<Longrightarrow>
         cast_columns env table_name (dict_keys first) = Inr casts \<Longrightarrow>
         merge_fault env = None \<Longrightarrow>
         drop_fault env = None \<Longrightarrow>
           fst (upload_excel_to_table env excel_data table_name conflict_columns db)
             = Inr (success_result (length (first # others)))"
    by (rule upload_fst_of_try(2)) (rule late(5))
qed

lemma upload_returns_record:
  "\<exists>r. fst (upload_excel_to_table env excel_data table_name conflict_columns db) = Inr r
      \<and> (success r
          \<or> (\<exists>e. fst (upload_excel_to_table_try env excel_data table_name conflict_columns db) = Inl e
                \<and> r = \<lparr>success = False,
                         message = ''Error en carga COPY+upsert: '' @ str_exn e,
                         rows_processed = 0, errors = Some [str_exn e]\<rparr>))
      \<and> (\<forall>e. fst (upload_excel_to_table_try env excel_data table_name conflict_columns db) = Inl e
            \<longrightarrow> r = \<lparr>success = False,
                       message = ''Error en carga COPY+upsert: '' @ str_exn e,
                       rows_processed = 0, errors = Some [str_exn e]\<rparr>)
      \<and> (success r \<longrightarrow>
            errors r = None
            \<and> (\<exists>parsed. read_excel_file_ironxl env excel_data = Inr parsed
                  \<and> rows_processed r = length parsed)
            \<and> csv_fault env = None \<and> stage_fault env = None \<and> copy_fault env = None
            \<and> merge_fault env = None \<and> drop_fault env = None
            \<and> (\<exists>first others casts.
                  read_excel_file_ironxl env excel_data = Inr (first # others)
                  \<and> write_csv env (dict_keys first) (first # others) = None
                  \<and> cast_columns env table_name (dict_keys first) = Inr casts))"
proof -
  obtain res db' where
    tr: "upload_excel_to_table_try env excel_data table_name conflict_columns db = (res, db')"
    by (cases "upload_excel_to_table_try env excel_data table_name conflict_columns db")
  show ?thesis
  proof (cases res)
    case (Inl e)
    let ?r = "\<lparr>success = False, message = ''Error en carga COPY+upsert: '' @ str_exn e,
               rows_processed = 0, errors = Some [str_exn e]\<rparr>"
    have tr': "fst (upload_excel_to_table_try env excel_data table_name conflict_columns db) = Inl e"
      using tr Inl by simp
    have c1: "fst (upload_excel_to_table env excel_data table_name conflict_columns db) = Inr ?r"
      using upload_result_of_try(2) [OF tr [unfolded Inl]] by simp
    have c2: "success ?r
          \<or> (\<exists>e'. fst (upload_excel_to_table_try env excel_data table_name conflict_columns db) = Inl e'
                \<and> ?r = \<lparr>success = False,
                         message = ''Error en carga COPY+upsert: '' @ str_exn e',
                         rows_processed = 0, errors = Some [str_exn e']\<rparr>)"
      using tr' by simp
    have c3: "\<forall>e'. fst (upload_excel_to_table_try env excel_data table_name conflict_columns db) = Inl e'
            \<longrightarrow> ?r = \<lparr>success = False,
                       message = ''Error en carga COPY+upsert: '' @ str_exn e',
                       rows_processed = 0, errors = Some [str_exn e']\<rparr>"
      using tr' by simp
    have c4: "success ?r \<longrightarrow>
            errors ?r = None
            \<and> (\<exists>parsed. read_excel_file_ironxl env excel_data = Inr parsed
                  \<and> rows_processed ?r = length parsed)
            \<and> csv_fault env = None \<and> stage_fault env = None \<and> copy_fault env = None
            \<and> merge_fault env = None \<and> drop_fault env = None
            \<and> (\<exists>first others casts.
                  read_excel_file_ironxl env excel_data = Inr (first # others)
                  \<and> write_csv env (dict_keys first) (first # others) = None
                  \<and> cast_columns env table_name (dict_keys first) = Inr casts)"
      by simp
    show ?thesis
      by (rule exI [of _ ?r]) (intro conjI; fact)
  next
    case (Inr n)
    let ?r = "\<lparr>success = True,
               message = ''Archivo cargado y upsert masivo realizado con COPY (''
                           @ str_int (int n) @ '' filas)'',
               rows_processed = n, errors = None\<rparr>"
    note tr' = tr [unfolded Inr]
    have trf: "fst (upload_excel_to_table_try env excel_data table_name conflict_columns db) = Inr n"
      using tr' by simp
    have c1: "fst (upload_excel_to_table env excel_data table_name conflict_columns db) = Inr ?r"
      using upload_result_of_try(1) [OF tr'] by simp
    have c2: "success ?r
          \<or> (\<exists>e'. fst (upload_excel_to_table_try env excel_data table_name conflict_columns db) = Inl e'
                \<and> ?r = \<lparr>success = False,
                         message = ''Error en carga COPY+upsert: '' @ str_exn e',
                         rows_processed = 0, errors = Some [str_exn e']\<rparr>)"
      by simp
    have c3: "\<forall>e'. fst (upload_excel_to_table_try env excel_data table_name conflict_columns db) = Inl e'
            \<longrightarrow> ?r = \<lparr>success = False,
                       message = ''Error en carga COPY+upsert: '' @ str_exn e',
                       rows_processed = 0, errors = Some [str_exn e']\<rparr>"
      using trf by simp
    from upload_try_Inr(2) [OF tr'] obtain first others casts where
      rd: "read_excel_file_ironxl env excel_data = Inr (first # others)"
      and n: "n = length (first # others)"
      and csv: "write_csv env (dict_keys first) (first # others) = None"
      and casts: "cast_columns env table_name (dict_keys first) = Inr casts"
      by blast
    have csvf: "csv_fault env = None" using csv by (rule write_csv_None)
    have parsed: "\<exists>parsed. read_excel_file_ironxl env excel_data = Inr parsed
                  \<and> rows_processed ?r = length parsed"
      using rd n by simp
    have stages: "\<exists>first others casts.
                  read_excel_file_ironxl env excel_data = Inr (first # others)
                  \<and> write_csv env (dict_keys first) (first # others) = None
                  \<and> cast_columns env table_name (dict_keys first) = Inr casts"
      using rd csv casts by blast
    note faults = upload_try_Inr(3) [OF tr']
    have c4: "success ?r \<longrightarrow>
            errors ?r = None
            \<and> (\<exists>parsed. read_excel_file_ironxl env excel_data = Inr parsed
                  \<and> rows_processed ?r = length parsed)
            \<and> csv_fault env = None \<and> stage_fault env = None \<and> copy_fault env = None
            \<and> merge_fault env = None \<and> drop_fault env = None
            \<and> (\<exists>first others casts.
                  read_excel_file_ironxl env excel_data = Inr (first # others)
                  \<and> write_csv env (dict_keys first) (first # others) = None
                  \<and> cast_columns env table_name (dict_keys first) = Inr casts)"
      using parsed csvf faults stages by simp
    show ?thesis
      by (rule exI [of _ ?r]) (intro conjI; fact)
  qed
qed

lemma upload_decision_tree:
  "(\<forall>e. read_excel_file_ironxl env excel_data = Inl e \<longrightarrow>
        fst (upload_excel_to_table env excel_data table_name conflict_columns db)
          = Inr (failure_result e))
   \<and> (\<forall>first others. read_excel_file_ironxl env excel_data = Inr (first # others) \<longrightarrow>
        (\<forall>e. write_csv env (dict_keys first) (first # others) = Some e \<longrightarrow>
           fst (upload_excel_to_table env excel_data table_name conflict_columns db)
             = Inr (failure_result e))
      \<and> (write_csv env (dict_keys first) (first # others) = None \<longrightarrow>
           (\<forall>e. stage_fault env = Some e \<longrightarrow>
              fst (upload_excel_to_table env excel_data table_name conflict_columns db)
                = Inr (failure_result e))
         \<and> (stage_fault env = None \<longrightarrow>
              (\<forall>e. copy_fault env = Some e \<longrightarrow>
                 fst (upload_excel_to_table env excel_data table_name conflict_columns db)
                   = Inr (failure_result e))
            \<and> (copy_fault env = None \<longrightarrow>
                 (\<forall>e. cast_columns env table_name (dict_keys first) = Inl e \<longrightarrow>
                    fst (upload_excel_to_table env excel_data table_name conflict_columns db)
                      = Inr (failure_result e))
               \<and> (\<forall>casts. cast_columns env table_name (dict_keys first) = Inr casts \<longrightarrow>
                    (\<forall>e. merge_fault env = Some e \<longrightarrow>
                       fst (upload_excel_to_table env excel_data table_name conflict_columns db)
                         = Inr (failure_result e))
                  \<and> (merge_fault env = None \<longrightarrow>
                       (\<forall>e. drop_fault env = Some e \<longrightarrow>
                          fst (upload_excel_to_table env excel_data table_name conflict_columns db)
                            = Inr (failure_result e))
                     \<and> (drop_fault env = None \<longrightarrow>
                          fst (upload_excel_to_table env excel_data table_name conflict_columns db)
                            = Inr (success_result (length (first # others))))))))))"
proof (intro conjI allI impI)
  fix e
  assume "read_excel_file_ironxl env excel_data = Inl e"
  then show "fst (upload_excel_to_table env excel_data table_name conflict_columns db)
          = Inr (failure_result e)"
    by (rule upload_stage_failure(1))
next
  fix first others e
  assume "read_excel_file_ironxl env excel_data = Inr (first # others)"
    and "write_csv env (dict_keys first) (first # others) = Some e"
  then show "fst (upload_excel_to_table env excel_data table_name conflict_columns db)
          = Inr (failure_result e)"
    by (rule upload_stage_failure(2))
next
  fix first others e
  assume "read_excel_file_ironxl env excel_data = Inr (first # others)"
    and "write_csv env (dict_keys first) (first # others) = None"
    and "stage_fault env = Some e"
  then show "fst (upload_excel_to_table env excel_data table_name conflict_columns db)
          = Inr (failure_result e)"
    by (rule upload_stage_failure(3))
next
  fix first others e
  assume a: "read_excel_file_ironxl env excel_data = Inr (first # others)"
    "write_csv env (dict_keys first) (first # others) = None"
    "stage_fault env = None"
    and b: "copy_fault env = Some e"
  from b show "fst (upload_excel_to_table env excel_data table_name conflict_columns db)
          = Inr (failure_result e)"
    by (rule upload_late_outcome(1) [OF a])
next
  fix first others e
  assume a: "read_excel_file_ironxl env excel_data = Inr (first # others)"
    "write_csv env (dict_keys first) (first # others) = None"
    "stage_fault env = None"
    and b: "copy_fault env = None" "cast_columns env table_name (dict_keys first) = Inl e"
  from b show "fst (upload_excel_to_table env excel_data table_name conflict_columns db)
          = Inr (failure_result e)"
    by (rule upload_late_outcome(2) [OF a])
next
  fix first others casts e
  assume a: "read_excel_file_ironxl env excel_data = Inr (first # others)"
    "write_csv env (dict_keys first) (first # others) = None"
    "stage_fault env = None"
    and b: "copy_fault env = None" "cast_columns env table_name (dict_keys first) = Inr casts"
      "merge_fault env = Some e"
  from b show "fst (upload_excel_to_table env excel_data table_name conflict_columns db)
          = Inr (failure_result e)"
    by (rule upload_late_outcome(3) [OF a])
next
  fix first others casts e
  assume a: "read_excel_file_ironxl env excel_data = Inr (first # others)"
    "write_csv env (dict_keys first) (first # others) = None"
    "stage_fault env = None"
    and b: "copy_fault env = None" "cast_columns env table_name (dict_keys first) = Inr casts"
      "merge_fault env = None" "drop_fault env = Some e"
  from b show "fst (upload_excel_to_table env excel_data table_name conflict_columns db)
          = Inr (failure_result e)"
    by (rule upload_late_outcome(4) [OF a])
next
  fix first others casts
  assume a: "read_excel_file_ironxl env excel_data = Inr (first # others)"
    "write_csv env (dict_keys first) (first # others) = None"
    "stage_fault env = None"
    and b: "copy_fault env = None" "cast_columns env table_name (dict_keys first) = Inr casts"
      "merge_fault env = None" "drop_fault env = None"
  from b show "fst (upload_excel_to_table env excel_data table_name conflict_columns db)
          = Inr (success_result (length (first # others)))"
    by (rule upload_late_outcome(5) [OF a])
qed

lemma failure_result_fields:
  "success (failure_result e) = False"
  "rows_processed (failure_result e) = 0"
  "errors (failure_result e) = Some [str_exn e]"
  "message (failure_result e) = ''Error en carga COPY+upsert: '' @ str_exn e"
  by (simp_all add: failure_result_def)


text \<open>
  Claim C3. \<open>upload_excel_to_table\<close> always returns a result record and never an
  exception. When the try part raises \<open>e\<close> the result is the failure record:
  \<open>success = False\<close>, the message with \<open>str(e)\<close>, \<open>rows_processed = 0\<close> and
  \<open>errors = [str(e)]\<close>. A success has no error list, counts the parsed rows, and means
  that no stage raised. Stage by stage: a failure of the parse, of the CSV writer, of the
  staging transaction, of the bulk load, of a column lookup, of the merge or of the final
  drop gives the failure record of the exception that stage raised, and only when every
  stage completes is the result a success.
\<close>

theorem upload_excel_to_table_never_raises:
  "(\<exists>r. fst (upload_excel_to_table env excel_data table_name conflict_columns db) = Inr r
      \<and> (success r
          \<or> (\<exists>e. fst (upload_excel_to_table_try env excel_data table_name conflict_columns db) = Inl e
                \<and> r = \<lparr>success = False,
                         message = ''Error en carga COPY+upsert: '' @ str_exn e,
                         rows_processed = 0, errors = Some [str_exn e]\<rparr>))
      \<and> (\<forall>e. fst (upload_excel_to_table_try env excel_data table_name conflict_columns db) = Inl e
            \<longrightarrow> r = \<lparr>success = False,
                       message = ''Error en carga COPY+upsert: '' @ str_exn e,
                       rows_processed = 0, errors = Some [str_exn e]\<rparr>)
      \<and> (success r \<longrightarrow>
            errors r = None
            \<and> (\<exists>parsed. read_excel_file_ironxl env excel_data = Inr parsed
                  \<and> rows_processed r = length parsed)
            \<and> csv_fault env = None \<and> stage_fault env = None \<and> copy_fault env = None
            \<and> merge_fault env = None \<and> drop_fault env = None
            \<and> (\<exists>first others casts.
                  read_excel_file_ironxl env excel_data = Inr (first # others)
                  \<and> write_csv env (dict_keys first) (first # others) = None
                  \<and> cast_columns env table_name (dict_keys first) = Inr casts)))
   \<and> ((\<forall>e. read_excel_file_ironxl env excel_data = Inl e \<longrightarrow>
        fst (upload_excel_to_table env excel_data table_name conflict_columns db)
          = Inr (failure_result e))
   \<and> (\<forall>first others. read_excel_file_ironxl env excel_data = Inr (first # others) \<longrightarrow>
        (\<forall>e. write_csv env (dict_keys first) (first # others) = Some e \<longrightarrow>
           fst (upload_excel_to_table env excel_data table_name conflict_columns db)
             = Inr (failure_result e))
      \<and> (write_csv env (dict_keys first) (first # others) = None \<longrightarrow>
           (\<forall>e. stage_fault env = Some e \<longrightarrow>
              fst (upload_excel_to_table env excel_data table_name conflict_columns db)
                = Inr (failure_result e))
         \<and> (stage_fault env = None \<longrightarrow>
              (\<forall>e. copy_fault env = Some e \<longrightarrow>
                 fst (upload_excel_to_table env excel_data table_name conflict_columns db)
                   = Inr (failure_result e))
            \<and> (copy_fault env = None \<longrightarrow>
                 (\<forall>e. cast_columns env table_name (dict_keys first) = Inl e \<longrightarrow>
                    fst (upload_excel_to_table env excel_data table_name conflict_columns db)
                      = Inr (failure_result e))
               \<and> (\<forall>casts. cast_columns env table_name (dict_keys first) = Inr casts \<longrightarrow>
                    (\<forall>e. merge_fault env = Some e \<longrightarrow>
                       fst (upload_excel_to_table env excel_data table_name conflict_columns db)
                         = Inr (failure_result e))
                  \<and> (merge_fault env = None \<longrightarrow>
                       (\<forall>e. drop_fault env = Some e \<longrightarrow>
                          fst (upload_excel_to_table env excel_data table_name conflict_columns db)
                            = Inr (failure_result e))
                     \<and> (drop_fault env = None \<longrightarrow>
                          fst (upload_excel_to_table env excel_data table_name conflict_columns db)
                            = Inr (success_result (length (first # others)))))))))))
   \<and> (\<forall>e. success (failure_result e) = False
          \<and> rows_processed (failure_result e) = 0
          \<and> errors (failure_result e) = Some [str_exn e]
          \<and> message (failure_result e) = ''Error en carga COPY+upsert: '' @ str_exn e)"
proof -
  have c: "\<forall>e. success (failure_result e) = False
          \<and> rows_processed (failure_result e) = 0
          \<and> errors (failure_result e) = Some [str_exn e]
          \<and> message (failure_result e) = ''Error en carga COPY+upsert: '' @ str_exn e"
    by (simp add: failure_result_fields)
  show ?thesis
    by (rule conjI [OF upload_returns_record conjI [OF upload_decision_tree c]])
qed

theorem upload_excel_to_table_never_raises_witness:
  "fst (upload_excel_to_table example_env [] ''orders'' [''id''] example_db) =
     Inr \<lparr>success = True,
          message = ''Archivo cargado y upsert masivo realizado con COPY (1 filas)'',
          rows_processed = 1, errors = None\<rparr>
   \<and> copy_fault example_env = None
   \<and> (\<exists>r. fst (upload_excel_to_table copy_fails_env [] ''orders'' [''id''] example_db) = Inr r
          \<and> success r = False \<and> errors r = Some [''connection lost''])
   \<and> fst (upload_excel_to_table stage_fails_env [] ''orders'' [''id''] example_db)
       = Inr (failure_result (OtherException ''permission denied''))
   \<and> fst (upload_excel_to_table cast_fails_env [] ''orders'' [''id''] example_db) =
       Inr \<lparr>success = False,
            message = ''Error en carga COPY+upsert: lookup failed'',
            rows_processed = 0, errors = Some [''lookup failed'']\<rparr>
   \<and> fst (upload_excel_to_table ragged_env [] ''orders'' [''id''] example_db) =
       Inr \<lparr>success = False,
            message = ''Error en carga COPY+upsert: dict contains fields not in fieldnames: ''
                        @ sq @ ''name'' @ sq,
            rows_processed = 0,
            errors = Some [''dict contains fields not in fieldnames: '' @ sq @ ''name'' @ sq]\<rparr>"
proof -
  note never = upload_excel_to_table_never_raises
  from never [of example_env "[]" "''orders''" "[''id'']" example_db, THEN conjunct1]
  obtain r where r: "fst (upload_excel_to_table example_env [] ''orders'' [''id''] example_db) = Inr r"
    and imp: "success r \<longrightarrow> copy_fault example_env = None"
    by blast
  from r have "success r"
    unfolding example_upload_success(1) by auto
  with imp have 1: "copy_fault example_env = None" by blast
  have 2: "\<exists>r. fst (upload_excel_to_table copy_fails_env [] ''orders'' [''id''] example_db) = Inr r
          \<and> success r = False \<and> errors r = Some [''connection lost'']"
    by (simp add: example_upload_copy_fails(1))
  have rd: "read_excel_file_ironxl stage_fails_env [] = Inr ([(''id'', ''1''), (''name'', ''Bob'')] # [])"
    by code_simp
  have csv: "write_csv stage_fails_env (dict_keys [(''id'', ''1''), (''name'', ''Bob'')])
               ([(''id'', ''1''), (''name'', ''Bob'')] # []) = None"
    by code_simp
  from never [of stage_fails_env "[]" "''orders''" "[''id'']" example_db,
      THEN conjunct2, THEN conjunct1, THEN conjunct2] rd csv example_stage_fault
  have 3: "fst (upload_excel_to_table stage_fails_env [] ''orders'' [''id''] example_db)
       = Inr (failure_result (OtherException ''permission denied''))"
    by blast
  from example_upload_success(1) 1 2 3 example_upload_cast_fails example_upload_ragged
  show ?thesis by (intro conjI)
qed





section \<open>Properties of the spreadsheet parser\<close>

lemma blank_header_scan:
  "sc_headers (foldl (scan_cell (grid_worksheet blank_header_grid) True 0)
      \<lparr>sc_has_data = False, sc_headers = [], sc_row_data = []\<rparr> [0..<3])
    = [''id'', '''', ''name'']"
  by code_simp

text \<open>
  Claim C6. A blank header cell creates no key, and a data cell is keyed by the header
  collected at its own column. The code does the first and not the second: the header
  row is collected with an empty entry for a blank cell, but the list is then filtered
  to its non-blank entries before the data rows are read, so every header right of a
  blank cell moves one place to the left. With the header row \<open>id\<close>, blank, \<open>name\<close> and
  the data row \<open>1\<close>, \<open>x\<close>, \<open>Bob\<close>, the parser returns \<open>name = x\<close> and drops \<open>Bob\<close>, where
  the claim gives \<open>name = Bob\<close> and skips \<open>x\<close>.
\<close>

theorem read_excel_shifts_headers_after_blank:
  "read_excel_file_ironxl blank_header_env [] = Inr [[(''id'', ''1''), (''name'', ''x'')]]
   \<and> read_excel_file_ironxl blank_header_env [] \<noteq> Inr [[(''id'', ''1''), (''name'', ''Bob'')]]"
  by code_simp

section \<open>Properties of the export validation\<close>

lemma py_join_contains:
  "x \<in> set xs \<Longrightarrow> \<exists>a b. py_join sep xs = a @ x @ b"
proof (induction sep xs rule: py_join.induct)
  case (1 sep)
  then show ?case by simp
next
  case (2 sep y)
  then have "py_join sep [y] = [] @ x @ []" by simp
  then show ?case by blast
next
  case (3 sep y z zs)
  show ?case
  proof (cases "x = y")
    case True
    then have "py_join sep (y # z # zs) = [] @ x @ (sep @ py_join sep (z # zs))" by simp
    then show ?thesis by blast
  next
    case False
    with "3.prems" have "x \<in> set (z # zs)" by simp
    from "3.IH" [OF this] obtain a b where "py_join sep (z # zs) = a @ x @ b" by blast
    then have "py_join sep (y # z # zs) = (y @ sep @ a) @ x @ b" by simp
    then show ?thesis by blast
  qed
qed

lemma py_repr_list_contains:
  assumes "f \<in> set fs"
  shows "\<exists>a b. py_repr_list fs = a @ py_repr_str f @ b"
proof -
  from assms have "py_repr_str f \<in> set (map py_repr_str fs)" by simp
  from py_join_contains [OF this, of "'', ''"] obtain a b where
    "py_join '', '' (map py_repr_str fs) = a @ py_repr_str f @ b" by blast
  then have "py_repr_list fs = (''['' @ a) @ py_repr_str f @ (b @ '']'')"
    by (simp add: py_repr_list_def)
  then show ?thesis by blast
qed

lemma validate_fields_invalid:
  assumes "schema_columns st table = Inr table_columns"
    and "table_columns \<noteq> []"
    and "filter (\<lambda>f. f \<notin> set table_columns) flds \<noteq> []"
  shows "validate_fields st table flds =
           (Inl (ExcelGenerationError
              (''Campos inv'' @ a_acute @ ''lidos para tabla '' @ table @ '': ''
                 @ py_repr_list (filter (\<lambda>f. f \<notin> set table_columns) flds))),
            [SchemaQuery table])"
  using assms
  by (simp add: validate_fields_def get_table_columns_def get_table_columns_try_def)

lemma generate_excel_invalid:
  assumes "schema_columns st table = Inr table_columns"
    and "table_columns \<noteq> []"
    and "filter (\<lambda>f. f \<notin> set table_columns) flds \<noteq> []"
  shows "generate_excel st eng table flds filters template =
           (Inl (ExcelGenerationError
              (''Error generando Excel: Campos inv'' @ a_acute @ ''lidos para tabla '' @ table @ '': ''
                 @ py_repr_list (filter (\<lambda>f. f \<notin> set table_columns) flds))),
            [SchemaQuery table])"
  by (simp add: generate_excel_def generate_excel_try_def validate_fields_invalid [OF assms])

text \<open>
  Claim C5, as stated, fails: the export of \<open>orders\<close> with the unknown field \<open>zz\<close> fails
  with an \<open>ExcelGenerationError\<close>, the base class, which is not a \<open>ValidationError\<close>.
  For a table without columns the message reports the failed column lookup and lists no
  field.
\<close>

theorem generate_excel_invalid_field_error_class:
  "fst (generate_excel example_store example_engine ''orders'' [''id'', ''zz''] None
          ''default_template.xlsx'')
     = Inl (ExcelGenerationError
         (''Error generando Excel: Campos inv'' @ a_acute @ ''lidos para tabla orders: [''
            @ sq @ ''zz'' @ sq @ '']''))
   \<and> fst (generate_excel example_store example_engine ''nope'' [''id'', ''zz''] None
          ''default_template.xlsx'')
     = Inl (ExcelGenerationError
         (''Error generando Excel: Error validando campos: Error accediendo a tabla: Tabla ''
            @ sq @ ''nope'' @ sq @ '' no encontrada''))"
  by code_simp

text \<open>
  Claim C5, amended. When the column lookup of the table returns a non-empty column
  list and at least one requested field is not among the columns, the export fails with
  an \<open>ExcelGenerationError\<close> whose message ends with the list of all the invalid
  fields, in the order requested, each field appearing in it; the only query issued is
  the column lookup, so no data-fetch query precedes the failure.
\<close>

theorem generate_excel_rejects_invalid_fields:
  assumes "schema_columns st table = Inr table_columns"
    and "table_columns \<noteq> []"
    and "\<not> set flds \<subseteq> set table_columns"
  shows "generate_excel st eng table flds filters template =
           (Inl (ExcelGenerationError
              (''Error generando Excel: Campos inv'' @ a_acute @ ''lidos para tabla '' @ table @ '': ''
                 @ py_repr_list (filter (\<lambda>f. f \<notin> set table_columns) flds))),
            [SchemaQuery table])
       \<and> (\<forall>f. f \<in> set flds \<and> f \<notin> set table_columns \<longrightarrow>
             (\<exists>a b. py_repr_list (filter (\<lambda>f. f \<notin> set table_columns) flds)
                      = a @ py_repr_str f @ b))
       \<and> filter is_SelectQuery
            (snd (generate_excel st eng table flds filters template)) = []"
proof -
  from assms(3) have ne: "filter (\<lambda>f. f \<notin> set table_columns) flds \<noteq> []"
    by (auto simp: filter_empty_conv)
  note gen = generate_excel_invalid [OF assms(1,2) ne, of eng filters template]
  show ?thesis
  proof (intro conjI allI impI)
    show "generate_excel st eng table flds filters template =
           (Inl (ExcelGenerationError
              (''Error generando Excel: Campos inv'' @ a_acute @ ''lidos para tabla '' @ table @ '': ''
                 @ py_repr_list (filter (\<lambda>f. f \<notin> set table_columns) flds))),
            [SchemaQuery table])"
      by (rule gen)
    show "\<exists>a b. py_repr_list (filter (\<lambda>f. f \<notin> set table_columns) flds) = a @ py_repr_str f @ b"
      if "f \<in> set flds \<and> f \<notin> set table_columns" for f
    proof (rule py_repr_list_contains)
      from that show "f \<in> set (filter (\<lambda>f. f \<notin> set table_columns) flds)" by simp
    qed
    show "filter is_SelectQuery (snd (generate_excel st eng table flds filters template)) = []"
      by (simp add: gen)
  qed
qed

theorem generate_excel_rejects_invalid_fields_witness:
  "schema_columns example_store ''orders'' = Inr [''id'', ''name'', ''paid'']
   \<and> generate_excel example_store example_engine ''orders'' [''zz'', ''id'', ''qty'']
        (Some [(''paid'', PyBool True)]) ''default_template.xlsx''
     = (Inl (ExcelGenerationError
          (''Error generando Excel: Campos inv'' @ a_acute @ ''lidos para tabla orders: [''
             @ sq @ ''zz'' @ sq @ '', '' @ sq @ ''qty'' @ sq @ '']'')),
        [SchemaQuery ''orders''])"
proof -
  have a: "schema_columns example_store ''orders'' = Inr [''id'', ''name'', ''paid'']"
    by (simp add: example_store_def)
  have b: "[''id'', ''name'', ''paid''] \<noteq> ([] :: string list)" by simp
  have c: "\<not> set [''zz'', ''id'', ''qty''] \<subseteq> set [''id'', ''name'', ''paid'']" by simp
  have d: "py_repr_list (filter (\<lambda>f. f \<notin> set [''id'', ''name'', ''paid'']) [''zz'', ''id'', ''qty''])
             = ''['' @ sq @ ''zz'' @ sq @ '', '' @ sq @ ''qty'' @ sq @ '']''"
    by code_simp
  from generate_excel_rejects_invalid_fields [OF a b c, of example_engine
      "Some [(''paid'', PyBool True)]" "''default_template.xlsx''"]
  have "generate_excel example_store example_engine ''orders'' [''zz'', ''id'', ''qty'']
        (Some [(''paid'', PyBool True)]) ''default_template.xlsx''
     = (Inl (ExcelGenerationError
              (''Error generando Excel: Campos inv'' @ a_acute @ ''lidos para tabla '' @ ''orders'' @ '': ''
                 @ py_repr_list (filter (\<lambda>f. f \<notin> set [''id'', ''name'', ''paid''])
                     [''zz'', ''id'', ''qty'']))),
            [SchemaQuery ''orders''])"
    by (rule conjunct1)
  then show ?thesis
    unfolding d using a by simp
qed

section \<open>Properties of the worksheet writer\<close>
























end
